theory Spec2Isabelle
  imports Complex_Main
begin

section \<open>Python values and exceptions\<close>

text \<open>
  The client (\<^verbatim>\<open>wcpms_client.py\<close>) works on the values that \<^verbatim>\<open>json\<close> decoding
  produces (dictionaries with string keys, lists, strings, numbers, booleans, None)
  and on \<^verbatim>\<open>datetime\<close> objects that it parses from date strings. Strings are byte
  lists (UTF-8). A float is modelled by the real number it denotes; a datetime
  parsed with the format \<^verbatim>\<open>%Y-%m-%d\<close> is at midnight and is modelled by the
  proleptic Gregorian ordinal of its day. A dictionary is an association list in
  insertion order, read with \<^const>\<open>map_of\<close>. The region that
  \<^verbatim>\<open>plot_points_region\<close> receives holds geometry objects: \<open>PGeom\<close> is a shapely
  polygon, given by the vertices of its exterior ring; it has no items, no iteration
  and no \<^verbatim>\<open>split\<close>.
\<close>

datatype pyval =
    PNone
  | PBool bool
  | PInt int
  | PFloat real
  | PStr string
  | PDate int
  | PGeom "(real \<times> real) list"
  | PList "pyval list"
  | PDict "(string \<times> pyval) list"

text \<open>Every exception the modelled code can raise is a value of this type.\<close>

datatype error =
    ConnectionError
  | HTTPError
  | JSONDecodeError
  | KeyError string
  | TypeError
  | ValueError
  | AttributeError
  | IndexError
  | OverflowError
  | NameError string
  | UnboundLocalError string
  | NotModelled

text \<open>Sequencing of statements that may raise: the first exception ends the run.\<close>

definition and_then :: "error + 'a \<Rightarrow> ('a \<Rightarrow> error + 'b) \<Rightarrow> error + 'b" where
  "and_then m f = (case m of Inl e \<Rightarrow> Inl e | Inr v \<Rightarrow> f v)"

text \<open>\<^verbatim>\<open>d[k]\<close> with a string key: KeyError on a dictionary without the key,
  TypeError on every value that is not a dictionary.\<close>

fun getitem :: "pyval \<Rightarrow> string \<Rightarrow> error + pyval" where
  "getitem (PDict kvs) k = (case map_of kvs k of None \<Rightarrow> Inl (KeyError k) | Some v \<Rightarrow> Inr v)"
| "getitem _ k = Inl TypeError"

text \<open>\<^verbatim>\<open>s + v\<close> for a string \<^verbatim>\<open>s\<close>: TypeError unless \<^verbatim>\<open>v\<close> is a string.\<close>

definition add_str :: "string \<Rightarrow> pyval \<Rightarrow> error + string" where
  "add_str s v = (case v of PStr t \<Rightarrow> Inr (s @ t) | _ \<Rightarrow> Inl TypeError)"

text \<open>\<^verbatim>\<open>str(v)\<close>: a string is returned as it is; the text of any other value is
  given by the parameter \<open>py_repr\<close> (Python's own rendering, not part of this
  repository).\<close>

definition py_str :: "(pyval \<Rightarrow> string) \<Rightarrow> pyval \<Rightarrow> string" where
  "py_str py_repr v = (case v of PStr s \<Rightarrow> s | _ \<Rightarrow> py_repr v)"

text \<open>The items a \<^verbatim>\<open>for\<close> loop visits: the elements of a list, the keys of a
  dictionary, the characters of a string; TypeError on anything else.\<close>

definition py_iter :: "pyval \<Rightarrow> error + pyval list" where
  "py_iter v = (case v of
      PList xs \<Rightarrow> Inr xs
    | PDict kvs \<Rightarrow> Inr (map (\<lambda>kv. PStr (fst kv)) kvs)
    | PStr s \<Rightarrow> Inr (map (\<lambda>c. PStr [c]) s)
    | _ \<Rightarrow> Inl TypeError)"

text \<open>\<^verbatim>\<open>sep.join(l)\<close> and \<^verbatim>\<open>s.split(sep)\<close> for a one-character separator.\<close>

fun join :: "string \<Rightarrow> string list \<Rightarrow> string" where
  "join sep [] = []"
| "join sep [x] = x"
| "join sep (x # y # ys) = x @ sep @ join sep (y # ys)"

fun split_on :: "char \<Rightarrow> string \<Rightarrow> string list" where
  "split_on sep [] = [[]]"
| "split_on sep (c # cs) =
     (if c = sep then [] # split_on sep cs
      else (case split_on sep cs of [] \<Rightarrow> [[c]] | x # xs \<Rightarrow> (c # x) # xs))"

section \<open>urllib.parse.urlencode\<close>

text \<open>
  \<^verbatim>\<open>urlencode(query)\<close> on a dictionary joins \<^verbatim>\<open>quote_plus(str(k)) + '=' +
  quote_plus(str(v))\<close> of its items with \<^verbatim>\<open>&\<close>. \<^verbatim>\<open>quote_plus\<close> keeps the
  unreserved characters, writes a space as \<^verbatim>\<open>+\<close> and every other byte as
  \<^verbatim>\<open>%XX\<close> in upper-case hexadecimal.
\<close>

definition always_safe :: "char \<Rightarrow> bool" where
  "always_safe c \<longleftrightarrow>
     c \<in> set (''ABCDEFGHIJKLMNOPQRSTUVWXYZ'' @ ''abcdefghijklmnopqrstuvwxyz'' @
              ''0123456789'' @ ''_.-~'')"

definition hex_digit :: "nat \<Rightarrow> char" where
  "hex_digit n = ''0123456789ABCDEF'' ! (n mod 16)"

definition quote_byte :: "char \<Rightarrow> string" where
  "quote_byte c =
     (if always_safe c then [c]
      else if c = CHR '' '' then ''+''
      else [CHR ''%'', hex_digit (of_char c div 16), hex_digit (of_char c mod 16)])"

definition quote_plus :: "string \<Rightarrow> string" where
  "quote_plus s = concat (map quote_byte s)"

definition urlencode :: "(pyval \<Rightarrow> string) \<Rightarrow> (string \<times> pyval) list \<Rightarrow> string" where
  "urlencode py_repr query =
     join ''&'' (map (\<lambda>kv. quote_plus (fst kv) @ ''='' @ quote_plus (py_str py_repr (snd kv))) query)"

text \<open>Reading a query string back: the parameter names are the texts before the
  first \<^verbatim>\<open>=\<close> of the pieces between \<^verbatim>\<open>&\<close>.\<close>

definition param_names :: "string \<Rightarrow> string list" where
  "param_names qs = map (takeWhile (\<lambda>c. c \<noteq> CHR ''='')) (split_on CHR ''&'' qs)"

section \<open>The HTTP exchange\<close>

text \<open>
  \<^verbatim>\<open>requests.get(url)\<close> and \<^verbatim>\<open>requests.post(url, json=body)\<close> hand one request
  to the network and either raise (the host is unreachable) or return a response.
  A response carries its status code and what \<^verbatim>\<open>data.json()\<close> decodes from its
  body: \<open>None\<close> when the body is not a JSON document, where \<^verbatim>\<open>data.json()\<close>
  raises a JSONDecodeError (a ValueError). The world records every request issued.
\<close>

datatype http_method = GET | POST

record request =
  req_method :: http_method
  req_url :: string
  req_json :: "pyval option"

record response =
  status_code :: int
  resp_json :: "pyval option"

record world =
  net :: "request \<Rightarrow> error + response"
  issued :: "request list"

definition requests_get :: "string \<Rightarrow> world \<Rightarrow> (error + response) \<times> world" where
  "requests_get u w =
     (let r = \<lparr>req_method = GET, req_url = u, req_json = None\<rparr>
      in (net w r, w\<lparr>issued := issued w @ [r]\<rparr>))"

definition requests_post :: "string \<Rightarrow> pyval \<Rightarrow> world \<Rightarrow> (error + response) \<times> world" where
  "requests_post u body w =
     (let r = \<lparr>req_method = POST, req_url = u, req_json = Some body\<rparr>
      in (net w r, w\<lparr>issued := issued w @ [r]\<rparr>))"

definition response_json :: "response \<Rightarrow> error + pyval" where
  "response_json r = (case resp_json r of None \<Rightarrow> Inl JSONDecodeError | Some v \<Rightarrow> Inr v)"

section \<open>The request/response adapter\<close>

text \<open>The dictionary \<^verbatim>\<open>query\<close> of \<^verbatim>\<open>get_phenometrics\<close>: the keyword arguments
  are evaluated in the order written, so the first missing key of the cube raises.\<close>

definition phenometrics_query :: "pyval \<Rightarrow> pyval \<Rightarrow> pyval \<Rightarrow> error + (string \<times> pyval) list" where
  "phenometrics_query cube latitude longitude =
     and_then (getitem cube ''collection'') (\<lambda>collection.
     and_then (getitem cube ''band'') (\<lambda>band.
     and_then (getitem cube ''start_date'') (\<lambda>start_date.
     and_then (getitem cube ''end_date'') (\<lambda>end_date.
     and_then (getitem cube ''freq'') (\<lambda>freq.
       Inr [(''collection'', collection), (''band'', band), (''start_date'', start_date),
            (''end_date'', end_date), (''freq'', freq),
            (''latitude'', latitude), (''longitude'', longitude)])))))"

definition get_phenometrics ::
  "(pyval \<Rightarrow> string) \<Rightarrow> string \<Rightarrow> pyval \<Rightarrow> pyval \<Rightarrow> pyval \<Rightarrow> world \<Rightarrow> (error + pyval) \<times> world" where
  "get_phenometrics py_repr url cube latitude longitude w =
     (case phenometrics_query cube latitude longitude of
        Inl e \<Rightarrow> (Inl e, w)
      | Inr query \<Rightarrow>
          (let url_suffix = ''/phenometrics?'' @ urlencode py_repr query;
               (data, w') = requests_get (url @ url_suffix) w
           in (and_then data (\<lambda>d.
               and_then (response_json d) (\<lambda>data_json.
               getitem data_json ''result'')), w')))"

text \<open>\<^verbatim>\<open>cube_query\<close> builds the cube dictionary.\<close>

definition cube_query :: "pyval \<Rightarrow> pyval \<Rightarrow> pyval \<Rightarrow> pyval \<Rightarrow> pyval \<Rightarrow> pyval" where
  "cube_query collection start_date end_date freq band =
     PDict [(''collection'', collection), (''band'', band), (''start_date'', start_date),
            (''end_date'', end_date), (''freq'', freq)]"

definition get_collections :: "string \<Rightarrow> world \<Rightarrow> (error + pyval) \<times> world" where
  "get_collections url w =
     (let url_suffix = ''/list_collections'';
          (data, w') = requests_get (url @ url_suffix) w
      in (and_then data (\<lambda>d.
          and_then (response_json d) (\<lambda>data_json.
          getitem data_json ''coverages'')), w'))"

text \<open>The HTML table of \<^verbatim>\<open>get_description\<close>: the header row, and one row per
  item, built by string concatenation from left to right.\<close>

definition html_header :: string where
  "html_header = ''<tr>'' @ ''<td><b>Code</b></td>'' @ ''<td><b>Name</b></td>'' @
     ''<td><b>Description</b></td>'' @ ''<td><b>Method</b></td>'' @
     ''<td><b>Value</b></td>'' @ ''<td><b>Time</b></td>'' @ ''</tr>''"

definition html_row :: "(pyval \<Rightarrow> string) \<Rightarrow> pyval \<Rightarrow> error + string" where
  "html_row py_repr item =
     and_then (getitem item ''Code'') (\<lambda>code.
     and_then (add_str (''<tr>'' @ ''<td>'') code) (\<lambda>s1.
     and_then (getitem item ''Name'') (\<lambda>name.
     and_then (add_str (s1 @ ''</td>'' @ ''<td>'') name) (\<lambda>s2.
     and_then (getitem item ''Description'') (\<lambda>description.
     and_then (add_str (s2 @ ''</td>'' @ ''<td>'') description) (\<lambda>s3.
     and_then (getitem item ''Method'') (\<lambda>method.
     and_then (add_str (s3 @ ''</td>'' @ ''<td>'') method) (\<lambda>s4.
     and_then (getitem item ''Value'') (\<lambda>val.
     and_then (getitem item ''Time'') (\<lambda>time.
       Inr (s4 @ ''</td>'' @ ''<td>'' @ py_str py_repr val @ ''</td>'' @ ''<td>'' @
            py_str py_repr time @ ''</td>'' @ ''</tr>'')))))))))))"

fun html_rows :: "(pyval \<Rightarrow> string) \<Rightarrow> string \<Rightarrow> pyval list \<Rightarrow> error + string" where
  "html_rows py_repr html_table [] = Inr html_table"
| "html_rows py_repr html_table (item # items) =
     and_then (html_row py_repr item) (\<lambda>row. html_rows py_repr (html_table @ row) items)"

definition get_description :: "(pyval \<Rightarrow> string) \<Rightarrow> string \<Rightarrow> world \<Rightarrow> (error + pyval) \<times> world" where
  "get_description py_repr url w =
     (let url_suffix = ''/describe'';
          (data, w') = requests_get (url @ url_suffix) w
      in (and_then data (\<lambda>d.
          and_then (response_json d) (\<lambda>data_json.
          and_then (getitem data_json ''description'') (\<lambda>description.
          and_then (py_iter description) (\<lambda>items.
          and_then (html_rows py_repr html_header items) (\<lambda>html_table.
          getitem data_json ''description''))))), w'))"

text \<open>The two region operations post a JSON body.\<close>

definition region_body :: "pyval \<Rightarrow> string \<Rightarrow> pyval \<Rightarrow> error + pyval" where
  "region_body cube key payload =
     and_then (getitem cube ''collection'') (\<lambda>collection.
     and_then (getitem cube ''band'') (\<lambda>band.
     and_then (getitem cube ''start_date'') (\<lambda>start_date.
     and_then (getitem cube ''end_date'') (\<lambda>end_date.
     and_then (getitem cube ''freq'') (\<lambda>freq.
       Inr (PDict [(''collection'', collection), (''band'', band), (''start_date'', start_date),
                   (''end_date'', end_date), (''freq'', freq), (key, payload)]))))))"

definition get_timeseries_region :: "string \<Rightarrow> pyval \<Rightarrow> pyval \<Rightarrow> world \<Rightarrow> (error + pyval) \<times> world" where
  "get_timeseries_region url cube geom w =
     (case region_body cube ''geom'' geom of
        Inl e \<Rightarrow> (Inl e, w)
      | Inr body \<Rightarrow>
          (let url_suffix = ''/timeseries'';
               (data, w') = requests_post (url @ url_suffix) body w
           in (and_then data (\<lambda>d.
               and_then (response_json d) (\<lambda>data_json.
               getitem data_json ''result'')), w')))"

definition get_phenometrics_region :: "string \<Rightarrow> pyval \<Rightarrow> pyval \<Rightarrow> world \<Rightarrow> (error + pyval) \<times> world" where
  "get_phenometrics_region url cube timeseries w =
     (case region_body cube ''timeseries'' timeseries of
        Inl e \<Rightarrow> (Inl e, w)
      | Inr body \<Rightarrow>
          (let url_suffix = ''/phenometrics'';
               (data, w') = requests_post (url @ url_suffix) body w
           in (and_then data (\<lambda>d.
               and_then (response_json d) (\<lambda>data_json.
               getitem data_json ''result'')), w')))"

section \<open>The chart annotation builder\<close>

subsection \<open>Smoothing\<close>

text \<open>
  Modelled from the spec: \<^verbatim>\<open>scipy.signal.savgol_filter\<close>, which
  \<^verbatim>\<open>smooth_timeseries\<close> calls, is a library function and not part of the
  repository's sources. The spec describes it as a Savitzky-Golay filter of window
  length 3 and polynomial order 1 whose output has the length of its input and which
  fails when the series has fewer points than the window. The model is that filter in
  exact arithmetic, with the library's default edge mode (\<^verbatim>\<open>interp\<close>): an inner
  point becomes the value at the centre of the least-squares line through the point
  and its two neighbours, which is their mean; the first and the last point become the
  value at the end of the least-squares line through the first and the last three
  points. With fewer than three points the library raises a ValueError. Every call
  in the repository uses window length 3 and order 1; other parameters are outside
  the model (\<open>NotModelled\<close>). Rounding of floating-point arithmetic is not modelled.
\<close>

definition savgol_filter :: "real list \<Rightarrow> nat \<Rightarrow> nat \<Rightarrow> error + real list" where
  "savgol_filter x window_length polyorder =
     (if window_length = 3 \<and> polyorder = 1 then
        (let n = length x in
         if window_length > n then Inl ValueError
         else Inr (map (\<lambda>i.
                if i = 0 then (5 * x ! 0 + 2 * x ! 1 - x ! 2) / 6
                else if i = n - 1 then (5 * x ! (n - 1) + 2 * x ! (n - 2) - x ! (n - 3)) / 6
                else (x ! (i - 1) + x ! i + x ! (i + 1)) / 3) [0..<n]))
      else Inl NotModelled)"

text \<open>\<^verbatim>\<open>smooth_timeseries\<close> binds \<^verbatim>\<open>smooth_ts\<close> only when the method is
  \<^verbatim>\<open>'savitsky'\<close>; any other method reaches the \<^verbatim>\<open>return\<close> with the variable
  unbound.\<close>

definition smooth_timeseries :: "real list \<Rightarrow> string \<Rightarrow> nat \<Rightarrow> nat \<Rightarrow> error + real list" where
  "smooth_timeseries ts method window_length polyorder =
     (if method = ''savitsky'' then savgol_filter ts window_length polyorder
      else Inl (UnboundLocalError ''smooth_ts''))"

text \<open>
  \<^verbatim>\<open>savgol_filter\<close> converts its argument with \<^verbatim>\<open>numpy.asarray\<close>. The model
  accepts a list of numbers (a boolean counts as 0 or 1); any other value is outside
  the model of numpy's conversion and is reported as a ValueError.
\<close>

definition is_number :: "pyval \<Rightarrow> bool" where
  "is_number v = (case v of PInt i \<Rightarrow> True | PFloat r \<Rightarrow> True | PBool b \<Rightarrow> True | _ \<Rightarrow> False)"

definition number_value :: "pyval \<Rightarrow> real" where
  "number_value v =
     (case v of PInt i \<Rightarrow> of_int i | PFloat r \<Rightarrow> r | PBool b \<Rightarrow> (if b then 1 else 0) | _ \<Rightarrow> 0)"

definition np_asarray :: "pyval \<Rightarrow> error + real list" where
  "np_asarray v =
     (case v of
        PList xs \<Rightarrow> if list_all is_number xs then Inr (map number_value xs) else Inl ValueError
      | _ \<Rightarrow> Inl ValueError)"

text \<open>The call \<^verbatim>\<open>smooth_timeseries(ts=v, method='savitsky', window_length=3)\<close> of the
  chart builders (the order is the default, 1); the smoothed array as a Python value.\<close>

definition smoothed :: "pyval \<Rightarrow> error + pyval" where
  "smoothed v =
     and_then (np_asarray v) (\<lambda>ts.
     and_then (smooth_timeseries ts ''savitsky'' 3 1) (\<lambda>y_new.
       Inr (PList (map PFloat y_new))))"

subsection \<open>Dates\<close>

text \<open>
  \<^verbatim>\<open>v.split('T')[0]\<close>: the text before the first \<^verbatim>\<open>T\<close> of a string; a value that is
  not a string has no \<^verbatim>\<open>split\<close>.
\<close>

definition date_part :: "pyval \<Rightarrow> error + string" where
  "date_part v =
     (case v of
        PStr s \<Rightarrow> (case split_on CHR ''T'' s of [] \<Rightarrow> Inl IndexError | d # _ \<Rightarrow> Inr d)
      | _ \<Rightarrow> Inl AttributeError)"

text \<open>
  \<^verbatim>\<open>datetime.strptime(s, "%Y-%m-%d")\<close> is a library function. Its reading of the
  format is the parameter \<open>calendar\<close>: the day (as a proleptic Gregorian ordinal) of
  a string the format accepts, \<open>None\<close> for a string on which it raises ValueError.
  Adding a \<^verbatim>\<open>timedelta\<close> of whole days overflows outside the years 1 to 9999
  (ordinals 1 to 3652059).
\<close>

definition strptime :: "(string \<Rightarrow> int option) \<Rightarrow> string \<Rightarrow> error + int" where
  "strptime calendar s = (case calendar s of None \<Rightarrow> Inl ValueError | Some d \<Rightarrow> Inr d)"

definition add_days :: "int \<Rightarrow> int \<Rightarrow> error + int" where
  "add_days d k = (if 1 \<le> d + k \<and> d + k \<le> 3652059 then Inr (d + k) else Inl OverflowError)"

text \<open>\<^verbatim>\<open>phenometrics[k].split('T')[0]\<close> and
  \<^verbatim>\<open>dt.strptime(phenometrics[k].split('T')[0], "%Y-%m-%d")\<close>.\<close>

definition parsed_day :: "(string \<Rightarrow> int option) \<Rightarrow> pyval \<Rightarrow> string \<Rightarrow> error + int" where
  "parsed_day calendar phenometrics k =
     and_then (getitem phenometrics k) (\<lambda>t.
     and_then (date_part t) (\<lambda>d. strptime calendar d))"

definition pheno_date :: "pyval \<Rightarrow> string \<Rightarrow> error + pyval" where
  "pheno_date phenometrics k =
     and_then (getitem phenometrics k) (\<lambda>t.
     and_then (date_part t) (\<lambda>d. Inr (PStr d)))"

text \<open>The two unused variables \<^verbatim>\<open>pos_t_minus\<close> and \<^verbatim>\<open>pos_t_plus\<close> of the plotly
  builders: computing them can raise.\<close>

definition pos_t_window :: "(string \<Rightarrow> int option) \<Rightarrow> pyval \<Rightarrow> error + int \<times> int" where
  "pos_t_window calendar phenometrics =
     and_then (parsed_day calendar phenometrics ''pos_t'') (\<lambda>pos_t_minus.
     and_then (parsed_day calendar phenometrics ''pos_t'') (\<lambda>pos_t_plus.
     and_then (add_days pos_t_minus (- 5)) (\<lambda>pos_t_minus'.
     and_then (add_days pos_t_plus 5) (\<lambda>pos_t_plus'.
       Inr (pos_t_minus', pos_t_plus')))))"

subsection \<open>Figures\<close>

text \<open>
  A figure is the list of the drawing calls made on it, in order, and its vertical
  bands. Of each call the model keeps which call it is, its name or label, its mode
  (plotly) or marker format (matplotlib), whether it fills, and its data; colours,
  sizes, legends and axis formats are left out. A builder that raises shows no figure.
\<close>

record artist =
  art_call :: string
  art_name :: pyval
  art_mode :: string
  art_filled :: bool
  art_x :: pyval
  art_y :: pyval

record figure =
  artists :: "artist list"
  vrects :: "(int \<times> int) list"
  fig_title :: string

definition scatter :: "pyval \<Rightarrow> string \<Rightarrow> pyval \<Rightarrow> pyval \<Rightarrow> bool \<Rightarrow> artist" where
  "scatter n m x y f =
     \<lparr>art_call = ''go.Scatter'', art_name = n, art_mode = m, art_filled = f, art_x = x, art_y = y\<rparr>"

text \<open>The traces of the plotly builders that are read from the phenometrics record.\<close>

definition lios_trace :: "pyval \<Rightarrow> error + artist" where
  "lios_trace phenometrics =
     and_then (pheno_date phenometrics ''sos_t'') (\<lambda>x1.
     and_then (pheno_date phenometrics ''sos_t'') (\<lambda>x2.
     and_then (pheno_date phenometrics ''pos_t'') (\<lambda>x3.
     and_then (pheno_date phenometrics ''eos_t'') (\<lambda>x4.
     and_then (pheno_date phenometrics ''eos_t'') (\<lambda>x5.
     and_then (getitem phenometrics ''sos_v'') (\<lambda>y2.
     and_then (getitem phenometrics ''pos_v'') (\<lambda>y3.
     and_then (getitem phenometrics ''eos_v'') (\<lambda>y4.
       Inr (scatter (PStr ''LIOS'') ''lines'' (PList [x1, x2, x3, x4, x5])
              (PList [PInt 0, y2, y3, y4, PInt 0]) True)))))))))"

definition los_trace :: "pyval \<Rightarrow> error + artist" where
  "los_trace phenometrics =
     and_then (pheno_date phenometrics ''sos_t'') (\<lambda>x1.
     and_then (pheno_date phenometrics ''eos_t'') (\<lambda>x2.
     and_then (getitem phenometrics ''sos_v'') (\<lambda>y1.
     and_then (getitem phenometrics ''eos_v'') (\<lambda>y2.
       Inr (scatter (PStr ''LOS'') ''lines'' (PList [x1, x2]) (PList [y1, y2]) False)))))"

definition aos_trace :: "pyval \<Rightarrow> error + artist" where
  "aos_trace phenometrics =
     and_then (pheno_date phenometrics ''pos_t'') (\<lambda>x1.
     and_then (pheno_date phenometrics ''pos_t'') (\<lambda>x2.
     and_then (getitem phenometrics ''pos_v'') (\<lambda>y1.
       Inr (scatter (PStr ''AOS'') ''lines'' (PList [x1, x2]) (PList [y1, PInt 0]) False))))"

definition marker_trace :: "string \<Rightarrow> string \<Rightarrow> string \<Rightarrow> pyval \<Rightarrow> error + artist" where
  "marker_trace label key_t key_v phenometrics =
     and_then (pheno_date phenometrics key_t) (\<lambda>x1.
     and_then (getitem phenometrics key_v) (\<lambda>y1.
       Inr (scatter (PStr label) ''markers'' (PList [x1]) (PList [y1]) False)))"

text \<open>The two traces of the series: the raw one is named by the band, the smoothed
  one by \<^verbatim>\<open>"Smooth " + cube['band']\<close>.\<close>

definition band_trace :: "pyval \<Rightarrow> pyval \<Rightarrow> pyval \<Rightarrow> error + artist" where
  "band_trace cube timeline timeseries =
     and_then (getitem cube ''band'') (\<lambda>band.
       Inr (scatter band [] timeline timeseries False))"

definition smooth_trace :: "pyval \<Rightarrow> pyval \<Rightarrow> pyval \<Rightarrow> error + artist" where
  "smooth_trace cube timeline y_new =
     and_then (getitem cube ''band'') (\<lambda>band.
     and_then (add_str ''Smooth '' band) (\<lambda>label.
       Inr (scatter (PStr label) [] timeline y_new False)))"

text \<open>\<^verbatim>\<open>plot_phenometrics\<close>, statement by statement: the smoothed series, the
  three reads of the point-query result, the unused window around the peak, the nine
  traces in the order they are added, and \<^verbatim>\<open>fig.show()\<close>.\<close>

definition plot_phenometrics :: "(string \<Rightarrow> int option) \<Rightarrow> pyval \<Rightarrow> pyval \<Rightarrow> error + figure" where
  "plot_phenometrics calendar cube ds_phenos =
     and_then (getitem ds_phenos ''timeseries'') (\<lambda>ts0.
     and_then (getitem ts0 ''values'') (\<lambda>values0.
     and_then (smoothed values0) (\<lambda>y_new.
     and_then (getitem ds_phenos ''timeseries'') (\<lambda>ts1.
     and_then (getitem ts1 ''timeline'') (\<lambda>timeline.
     and_then (getitem ds_phenos ''timeseries'') (\<lambda>ts2.
     and_then (getitem ts2 ''values'') (\<lambda>timeseries.
     and_then (getitem ds_phenos ''phenometrics'') (\<lambda>phenometrics.
     and_then (pos_t_window calendar phenometrics) (\<lambda>window.
     and_then (lios_trace phenometrics) (\<lambda>lios.
     and_then (band_trace cube timeline timeseries) (\<lambda>raw.
     and_then (smooth_trace cube timeline y_new) (\<lambda>smooth.
     and_then (los_trace phenometrics) (\<lambda>los.
     and_then (aos_trace phenometrics) (\<lambda>aos.
     and_then (marker_trace ''SOS'' ''sos_t'' ''sos_v'' phenometrics) (\<lambda>sos.
     and_then (marker_trace ''POS'' ''pos_t'' ''pos_v'' phenometrics) (\<lambda>pos.
     and_then (marker_trace ''EOS'' ''eos_t'' ''eos_v'' phenometrics) (\<lambda>eos.
     and_then (marker_trace ''VOS'' ''vos_t'' ''vos_v'' phenometrics) (\<lambda>vos.
       Inr \<lparr>artists = [lios, raw, smooth, los, aos, sos, pos, eos, vos], vrects = [],
            fig_title = []\<rparr>))))))))))))))))))"

text \<open>\<^verbatim>\<open>v[:21]\<close>: the first 21 elements of a list or characters of a string.\<close>

definition first_21 :: "pyval \<Rightarrow> error + pyval" where
  "first_21 v =
     (case v of PList xs \<Rightarrow> Inr (PList (take 21 xs)) | PStr s \<Rightarrow> Inr (PStr (take 21 s))
      | _ \<Rightarrow> Inl TypeError)"

text \<open>\<^verbatim>\<open>fig.add_vrect(x0=t - timedelta(days=16), x1=t + timedelta(days=16), ...)\<close>.\<close>

definition uncertainty_band :: "int \<Rightarrow> error + int \<times> int" where
  "uncertainty_band t =
     and_then (add_days t (- 16)) (\<lambda>x0.
     and_then (add_days t 16) (\<lambda>x1. Inr (x0, x1)))"

text \<open>\<^verbatim>\<open>plot_advanced_phenometrics\<close> reads a region-query result: the series and
  its timeline are at the top level and are cut to 21 points for the raw trace, the
  smoothed series is not cut; there is no LOS trace, and the two bands come last.\<close>

definition plot_advanced_phenometrics ::
  "(string \<Rightarrow> int option) \<Rightarrow> pyval \<Rightarrow> pyval \<Rightarrow> error + figure" where
  "plot_advanced_phenometrics calendar cube ds_phenos =
     and_then (getitem ds_phenos ''timeseries'') (\<lambda>values0.
     and_then (smoothed values0) (\<lambda>y_new.
     and_then (getitem ds_phenos ''timeline'') (\<lambda>timeline0.
     and_then (first_21 timeline0) (\<lambda>timeline.
     and_then (getitem ds_phenos ''timeseries'') (\<lambda>timeseries0.
     and_then (first_21 timeseries0) (\<lambda>timeseries.
     and_then (getitem ds_phenos ''phenometrics'') (\<lambda>phenometrics.
     and_then (pos_t_window calendar phenometrics) (\<lambda>window.
     and_then (lios_trace phenometrics) (\<lambda>lios.
     and_then (band_trace cube timeline timeseries) (\<lambda>raw.
     and_then (smooth_trace cube timeline y_new) (\<lambda>smooth.
     and_then (aos_trace phenometrics) (\<lambda>aos.
     and_then (marker_trace ''SOS'' ''sos_t'' ''sos_v'' phenometrics) (\<lambda>sos.
     and_then (marker_trace ''POS'' ''pos_t'' ''pos_v'' phenometrics) (\<lambda>pos.
     and_then (marker_trace ''VOS'' ''vos_t'' ''vos_v'' phenometrics) (\<lambda>vos.
     and_then (marker_trace ''EOS'' ''eos_t'' ''eos_v'' phenometrics) (\<lambda>eos.
     and_then (parsed_day calendar phenometrics ''sos_t'') (\<lambda>sos_time.
     and_then (parsed_day calendar phenometrics ''eos_t'') (\<lambda>eos_time.
     and_then (uncertainty_band sos_time) (\<lambda>band1.
     and_then (uncertainty_band eos_time) (\<lambda>band2.
       Inr \<lparr>artists = [lios, raw, smooth, aos, sos, pos, vos, eos], vrects = [band1, band2],
            fig_title = []\<rparr>))))))))))))))))))))"

subsection \<open>The matplotlib and seaborn builders\<close>

text \<open>The list comprehension over the timeline, the check of matplotlib and pandas
  that the data of one line have the same length, and the title
  \<^verbatim>\<open>"... {} ({})...".format(*attr)\<close>, which needs two items.\<close>

fun parse_timeline :: "(string \<Rightarrow> int option) \<Rightarrow> pyval list \<Rightarrow> error + pyval list" where
  "parse_timeline calendar [] = Inr []"
| "parse_timeline calendar (t # ts) =
     and_then (date_part t) (\<lambda>d.
     and_then (strptime calendar d) (\<lambda>day.
     and_then (parse_timeline calendar ts) (\<lambda>rest. Inr (PDate day # rest))))"

definition same_length :: "pyval list \<Rightarrow> pyval \<Rightarrow> error + unit" where
  "same_length timeline ys =
     (case ys of
        PList vs \<Rightarrow> if length timeline = length vs then Inr () else Inl ValueError
      | _ \<Rightarrow> Inl ValueError)"

definition format_title :: "(pyval \<Rightarrow> string) \<Rightarrow> string \<Rightarrow> string \<Rightarrow> pyval \<Rightarrow> error + string" where
  "format_title py_repr before after attr =
     and_then (py_iter attr) (\<lambda>items.
       case items of
         a # b # _ \<Rightarrow> Inr (before @ py_str py_repr a @ '' ('' @ py_str py_repr b @ '')'' @ after)
       | _ \<Rightarrow> Inl IndexError)"

definition ax_call :: "string \<Rightarrow> pyval \<Rightarrow> string \<Rightarrow> pyval \<Rightarrow> pyval \<Rightarrow> bool \<Rightarrow> artist" where
  "ax_call c n m x y f =
     \<lparr>art_call = c, art_name = n, art_mode = m, art_filled = f, art_x = x, art_y = y\<rparr>"

definition plot_phenometrics_matplotlib ::
  "(pyval \<Rightarrow> string) \<Rightarrow> (string \<Rightarrow> int option) \<Rightarrow> pyval \<Rightarrow> pyval \<Rightarrow> pyval \<Rightarrow> error + figure" where
  "plot_phenometrics_matplotlib py_repr calendar cube ds_phenos attr =
     and_then (getitem ds_phenos ''timeseries'') (\<lambda>ts0.
     and_then (getitem ts0 ''values'') (\<lambda>values0.
     and_then (smoothed values0) (\<lambda>y_new.
     and_then (getitem ds_phenos ''timeseries'') (\<lambda>ts1.
     and_then (getitem ts1 ''timeline'') (\<lambda>timeline_str.
     and_then (py_iter timeline_str) (\<lambda>stamps.
     and_then (parse_timeline calendar stamps) (\<lambda>timeline.
     and_then (getitem ds_phenos ''timeseries'') (\<lambda>ts2.
     and_then (getitem ts2 ''values'') (\<lambda>timeseries.
     and_then (getitem ds_phenos ''phenometrics'') (\<lambda>phenometrics.
     and_then (parsed_day calendar phenometrics ''sos_t'') (\<lambda>sos_t.
     and_then (parsed_day calendar phenometrics ''pos_t'') (\<lambda>pos_t.
     and_then (parsed_day calendar phenometrics ''eos_t'') (\<lambda>eos_t.
     and_then (parsed_day calendar phenometrics ''vos_t'') (\<lambda>vos_t.
     and_then (getitem phenometrics ''sos_v'') (\<lambda>sos_v.
     and_then (getitem phenometrics ''pos_v'') (\<lambda>pos_v.
     and_then (getitem phenometrics ''eos_v'') (\<lambda>eos_v.
     and_then (getitem phenometrics ''vos_v'') (\<lambda>vos_v.
     and_then (getitem cube ''band'') (\<lambda>band.
     and_then (same_length timeline timeseries) (\<lambda>u1.
     and_then (getitem cube ''band'') (\<lambda>band'.
     and_then (same_length timeline y_new) (\<lambda>u2.
     and_then (format_title py_repr (CHR 0x0A # ''Phenological Metrics for'' @ [CHR 0x0A])
                 [CHR 0x0A] attr) (\<lambda>the_title.
       Inr \<lparr>artists =
              [ax_call ''ax.fill'' (PStr ''LIOS'') []
                 (PList [PDate sos_t, PDate sos_t, PDate pos_t, PDate eos_t, PDate eos_t])
                 (PList [PInt 0, sos_v, pos_v, eos_v, PInt 0]) True,
               ax_call ''ax.plot'' band [] (PList timeline) timeseries False,
               ax_call ''ax.plot'' (PStr (''Smooth '' @ py_str py_repr band')) []
                 (PList timeline) y_new False,
               ax_call ''ax.plot'' (PStr ''LOS'') [] (PList [PDate sos_t, PDate eos_t])
                 (PList [sos_v, eos_v]) False,
               ax_call ''ax.plot'' (PStr ''AOS'') [] (PList [PDate pos_t, PDate pos_t])
                 (PList [pos_v, PInt 0]) False,
               ax_call ''ax.plot'' (PStr ''SOS'') ''o'' (PDate sos_t) sos_v False,
               ax_call ''ax.plot'' (PStr ''POS'') ''o'' (PDate pos_t) pos_v False,
               ax_call ''ax.plot'' (PStr ''EOS'') ''o'' (PDate eos_t) eos_v False,
               ax_call ''ax.plot'' (PStr ''VOS'') ''o'' (PDate vos_t) vos_v False],
            vrects = [], fig_title = the_title\<rparr>)))))))))))))))))))))))"

definition plot_phenometrics_seaborn ::
  "(pyval \<Rightarrow> string) \<Rightarrow> (string \<Rightarrow> int option) \<Rightarrow> pyval \<Rightarrow> pyval \<Rightarrow> pyval \<Rightarrow> error + figure" where
  "plot_phenometrics_seaborn py_repr calendar cube ds_phenos attr =
     and_then (getitem ds_phenos ''timeseries'') (\<lambda>ts0.
     and_then (getitem ts0 ''values'') (\<lambda>values0.
     and_then (smoothed values0) (\<lambda>y_new.
     and_then (getitem ds_phenos ''timeseries'') (\<lambda>ts1.
     and_then (getitem ts1 ''timeline'') (\<lambda>timeline_str.
     and_then (py_iter timeline_str) (\<lambda>stamps.
     and_then (parse_timeline calendar stamps) (\<lambda>timeline.
     and_then (getitem ds_phenos ''timeseries'') (\<lambda>ts2.
     and_then (getitem ts2 ''values'') (\<lambda>timeseries.
     and_then (getitem ds_phenos ''phenometrics'') (\<lambda>phenometrics.
     and_then (parsed_day calendar phenometrics ''sos_t'') (\<lambda>sos_t.
     and_then (parsed_day calendar phenometrics ''pos_t'') (\<lambda>pos_t.
     and_then (parsed_day calendar phenometrics ''eos_t'') (\<lambda>eos_t.
     and_then (parsed_day calendar phenometrics ''vos_t'') (\<lambda>vos_t.
     and_then (getitem phenometrics ''sos_v'') (\<lambda>sos_v.
     and_then (getitem phenometrics ''pos_v'') (\<lambda>pos_v.
     and_then (getitem phenometrics ''eos_v'') (\<lambda>eos_v.
     and_then (getitem phenometrics ''vos_v'') (\<lambda>vos_v.
     and_then (same_length timeline timeseries) (\<lambda>u1.
     and_then (same_length timeline y_new) (\<lambda>u2.
     and_then (getitem cube ''band'') (\<lambda>band.
     and_then (getitem cube ''band'') (\<lambda>band'.
     and_then (format_title py_repr ''Phenological Metrics for '' [CHR 0x0A] attr) (\<lambda>the_title.
       Inr \<lparr>artists =
              [ax_call ''ax.fill'' (PStr ''LIOS'') []
                 (PList [PDate sos_t, PDate sos_t, PDate pos_t, PDate eos_t, PDate eos_t])
                 (PList [PInt 0, sos_v, pos_v, eos_v, PInt 0]) True,
               ax_call ''sns.lineplot'' band [] (PList timeline) timeseries False,
               ax_call ''sns.lineplot'' (PStr (''Smooth '' @ py_str py_repr band')) []
                 (PList timeline) y_new False,
               ax_call ''ax.plot'' (PStr ''LOS'') [] (PList [PDate sos_t, PDate eos_t])
                 (PList [sos_v, eos_v]) False,
               ax_call ''ax.plot'' (PStr ''AOS'') [] (PList [PDate pos_t, PDate pos_t])
                 (PList [PInt 0, pos_v]) False,
               ax_call ''sns.scatterplot'' (PStr ''SOS'') [] (PList [PDate sos_t]) (PList [sos_v]) False,
               ax_call ''sns.scatterplot'' (PStr ''POS'') [] (PList [PDate pos_t]) (PList [pos_v]) False,
               ax_call ''sns.scatterplot'' (PStr ''EOS'') [] (PList [PDate eos_t]) (PList [eos_v]) False,
               ax_call ''sns.scatterplot'' (PStr ''VOS'') [] (PList [PDate vos_t]) (PList [vos_v]) False],
            vrects = [], fig_title = the_title\<rparr>)))))))))))))))))))))))"

subsection \<open>The two definitions of \<^verbatim>\<open>plot_points_region\<close>\<close>

text \<open>
  Loading the module runs its top-level statements in order. An import and a
  \<^verbatim>\<open>def\<close> (or \<^verbatim>\<open>class\<close>) statement each bind a name in the module's namespace; a
  later binding of a name replaces the earlier one. A function value is named by the
  line of its \<^verbatim>\<open>def\<close> statement. A global name that a function body reads is looked
  up in the namespace when the body runs: NameError when it is not bound.
\<close>

datatype binding = Imported | Defined nat

definition module_statements :: "(string \<times> binding) list" where
  "module_statements =
     [(''json'', Imported), (''os'', Imported), (''urllib'', Imported), (''warnings'', Imported),
      (''dt'', Imported), (''timedelta'', Imported), (''gpd'', Imported), (''mdates'', Imported),
      (''plt'', Imported), (''pd'', Imported), (''go'', Imported), (''requests'', Imported),
      (''sns'', Imported), (''savgol_filter'', Imported),
      (''WCPMS'', Defined 39), (''get_phenometrics'', Defined 61), (''cube_query'', Defined 132),
      (''smooth_timeseries'', Defined 163), (''plot_phenometrics'', Defined 168),
      (''plot_phenometrics_matplotlib'', Defined 261), (''plot_phenometrics_seaborn'', Defined 326),
      (''plot_advanced_phenometrics'', Defined 399), (''get_collections'', Defined 493),
      (''get_description'', Defined 529), (''gpd_read_file'', Defined 556),
      (''gdf_to_geojson'', Defined 560), (''plot_points_region'', Defined 563),
      (''get_timeseries_region'', Defined 572), (''get_phenometrics_region'', Defined 608),
      (''plot_points_region'', Defined 643)]"

fun load_module :: "(string \<times> binding) list \<Rightarrow> (string \<rightharpoonup> binding) \<Rightarrow> (string \<rightharpoonup> binding)" where
  "load_module [] ns = ns"
| "load_module (s # rest) ns = load_module rest (ns(fst s \<mapsto> snd s))"

definition loaded :: "string \<rightharpoonup> binding" where
  "loaded = load_module module_statements Map.empty"

definition global_name :: "(string \<rightharpoonup> binding) \<Rightarrow> string \<Rightarrow> error + binding" where
  "global_name ns n = (case ns n of None \<Rightarrow> Inl (NameError n) | Some b \<Rightarrow> Inr b)"

text \<open>\<^verbatim>\<open>v[i]\<close> with an integer index that is not negative (a dictionary, whose
  keys are strings here, has no such key), and the loop that both definitions share:
  \<^verbatim>\<open>x.append(p["point"][0]); y.append(p["point"][1])\<close>.\<close>

definition getindex :: "pyval \<Rightarrow> nat \<Rightarrow> error + pyval" where
  "getindex v i =
     (case v of
        PList xs \<Rightarrow> if i < length xs then Inr (xs ! i) else Inl IndexError
      | PStr s \<Rightarrow> if i < length s then Inr (PStr [s ! i]) else Inl IndexError
      | PDict kvs \<Rightarrow> Inl (KeyError ''integer index'')
      | _ \<Rightarrow> Inl TypeError)"

fun region_points :: "pyval list \<Rightarrow> pyval list \<Rightarrow> pyval list \<Rightarrow> error + pyval list \<times> pyval list" where
  "region_points x y [] = Inr (x, y)"
| "region_points x y (p # ps) =
     and_then (getitem p ''point'') (\<lambda>pt0.
     and_then (getindex pt0 0) (\<lambda>px0.
     and_then (getitem p ''point'') (\<lambda>pt1.
     and_then (getindex pt1 1) (\<lambda>py0.
       region_points (x @ [px0]) (y @ [py0]) ps))))"

text \<open>
  Both definitions call \<^verbatim>\<open>gpd.GeoSeries(polygon["geometry"])\<close>; the second then
  calls \<^verbatim>\<open>df.plot()\<close>, \<^verbatim>\<open>geo_axes.scatter(x, y, c='red')\<close> and
  \<^verbatim>\<open>geo_axes.plot()\<close>, the first \<^verbatim>\<open>px.scatter(df, x=x, y=y)\<close>. These are
  library calls. The model fixes what they do on the data they are made for: a list
  of at least one geometry object becomes a series, such a series is plotted, and
  points whose coordinates are floats are scattered; \<^verbatim>\<open>geo_axes.plot()\<close> without
  data draws nothing and cannot fail. What the libraries do with any other data (for
  a list of strings, the TypeError of the GeoSeries constructor) is the parameter
  \<open>lib\<close>.
\<close>

record library =
  lib_series :: "pyval \<Rightarrow> error + pyval"
  lib_plot :: "pyval \<Rightarrow> error + artist"
  lib_scatter :: "pyval list \<Rightarrow> pyval list \<Rightarrow> error + artist"
  lib_express :: "pyval \<Rightarrow> pyval list \<Rightarrow> pyval list \<Rightarrow> error + artist"

definition is_geometry :: "pyval \<Rightarrow> bool" where
  "is_geometry v = (case v of PGeom ring \<Rightarrow> True | _ \<Rightarrow> False)"

definition is_float :: "pyval \<Rightarrow> bool" where
  "is_float v = (case v of PFloat r \<Rightarrow> True | _ \<Rightarrow> False)"

definition geometries :: "pyval \<Rightarrow> bool" where
  "geometries v = (case v of PList gs \<Rightarrow> gs \<noteq> [] \<and> list_all is_geometry gs | _ \<Rightarrow> False)"

definition geo_series :: "library \<Rightarrow> pyval \<Rightarrow> error + pyval" where
  "geo_series lib data = (if geometries data then Inr data else lib_series lib data)"

definition series_plot :: "library \<Rightarrow> pyval \<Rightarrow> error + artist" where
  "series_plot lib df =
     (if geometries df then Inr (ax_call ''GeoSeries.plot'' PNone [] df PNone False)
      else lib_plot lib df)"

definition axes_scatter :: "library \<Rightarrow> pyval list \<Rightarrow> pyval list \<Rightarrow> error + artist" where
  "axes_scatter lib x y =
     (if list_all is_float x \<and> list_all is_float y
      then Inr (ax_call ''ax.scatter'' PNone [] (PList x) (PList y) False)
      else lib_scatter lib x y)"

text \<open>The definition at line 563 reads the global \<^verbatim>\<open>px\<close> after it has built the
  series; the one at line 643 plots the series and scatters the points on its axes.\<close>

definition plot_points_region_563 ::
  "library \<Rightarrow> (string \<rightharpoonup> binding) \<Rightarrow> pyval \<Rightarrow> pyval \<Rightarrow> error + figure" where
  "plot_points_region_563 lib ns polygon phenos =
     and_then (py_iter phenos) (\<lambda>ps.
     and_then (region_points [] [] ps) (\<lambda>xy.
     and_then (global_name ns ''gpd'') (\<lambda>gpd.
     and_then (getitem polygon ''geometry'') (\<lambda>geometry.
     and_then (geo_series lib geometry) (\<lambda>df.
     and_then (global_name ns ''px'') (\<lambda>px.
     and_then (lib_express lib df (fst xy) (snd xy)) (\<lambda>fig.
       Inr \<lparr>artists = [fig], vrects = [], fig_title = []\<rparr>)))))))"

definition plot_points_region_643 ::
  "library \<Rightarrow> (string \<rightharpoonup> binding) \<Rightarrow> pyval \<Rightarrow> pyval \<Rightarrow> error + figure" where
  "plot_points_region_643 lib ns polygon phenos =
     and_then (py_iter phenos) (\<lambda>ps.
     and_then (region_points [] [] ps) (\<lambda>xy.
     and_then (global_name ns ''gpd'') (\<lambda>gpd.
     and_then (getitem polygon ''geometry'') (\<lambda>geometry.
     and_then (geo_series lib geometry) (\<lambda>df.
     and_then (series_plot lib df) (\<lambda>geo_axes.
     and_then (axes_scatter lib (fst xy) (snd xy)) (\<lambda>points.
       Inr \<lparr>artists = [geo_axes, points], vrects = [], fig_title = []\<rparr>)))))))"

text \<open>A call \<^verbatim>\<open>plot_points_region(polygon, phenos)\<close> runs the body that the name is
  bound to.\<close>

definition call_plot_points_region ::
  "library \<Rightarrow> (string \<rightharpoonup> binding) \<Rightarrow> pyval \<Rightarrow> pyval \<Rightarrow> error + figure" where
  "call_plot_points_region lib ns polygon phenos =
     and_then (global_name ns ''plot_points_region'') (\<lambda>f.
       if f = Defined 563 then plot_points_region_563 lib ns polygon phenos
       else if f = Defined 643 then plot_points_region_643 lib ns polygon phenos
       else Inl TypeError)"

section \<open>Predicates and example data used in the statements\<close>

text \<open>A server that answers every request with the same response, and the
  data of the docstring example of \<^verbatim>\<open>get_phenometrics\<close>.\<close>

definition answering :: "response \<Rightarrow> request \<Rightarrow> error + response" where
  "answering resp r = Inr resp"

definition example_cube :: pyval where
  "example_cube = cube_query (PStr ''S2-16D-2'') (PStr ''2021-01-01'') (PStr ''2021-12-31'')
                             (PStr ''16D'') (PStr ''NDVI'')"

definition example_phenometrics :: pyval where
  "example_phenometrics = PDict
     [(''aos_v'', PFloat 2975.66650390625), (''bse_v'', PFloat 6233.1669921875),
      (''eos_t'', PStr ''2021-07-13T00:00:00''), (''eos_v'', PFloat 5489),
      (''pos_t'', PStr ''2021-04-01T00:00:00''), (''pos_v'', PFloat 9000),
      (''sos_t'', PStr ''2021-01-02T00:00:00''), (''sos_v'', PFloat 7649),
      (''vos_t'', PStr ''2021-12-20T00:00:00''), (''vos_v'', PFloat 4817.33349609375)]"

definition example_latitude :: pyval where
  "example_latitude = PFloat (- 29.2)"

definition example_longitude :: pyval where
  "example_longitude = PFloat (- 55.95)"

definition example_repr :: "pyval \<Rightarrow> string" where
  "example_repr v =
     (if v = example_latitude then ''-29.2'' else if v = example_longitude then ''-55.95''
      else if v = PInt 5 then ''5'' else ''None'')"

definition example_world :: "response \<Rightarrow> world" where
  "example_world resp = \<lparr>net = answering resp, issued = []\<rparr>"

text \<open>The six keys that a row of the HTML table reads; an item that is a JSON object
  without one of them; an item that is a JSON object whose Code, Name, Description
  and Method values, where present, are strings (an item that is not an object does
  not qualify); an item that is such an object and has all six keys.\<close>

definition description_keys :: "string list" where
  "description_keys = [''Code'', ''Name'', ''Description'', ''Method'', ''Value'', ''Time'']"

definition lacks_key :: "pyval \<Rightarrow> bool" where
  "lacks_key item =
     (case item of PDict kvs \<Rightarrow> \<exists>k\<in>set description_keys. map_of kvs k = None | _ \<Rightarrow> False)"

definition is_str :: "pyval \<Rightarrow> bool" where
  "is_str v = (case v of PStr s \<Rightarrow> True | _ \<Rightarrow> False)"

definition object_with_string_texts :: "pyval \<Rightarrow> bool" where
  "object_with_string_texts item =
     (case item of
        PDict kvs \<Rightarrow> \<forall>k\<in>set [''Code'', ''Name'', ''Description'', ''Method''].
                       (case map_of kvs k of None \<Rightarrow> True | Some v \<Rightarrow> is_str v)
      | _ \<Rightarrow> False)"

definition item_ok :: "pyval \<Rightarrow> bool" where
  "item_ok item \<longleftrightarrow> object_with_string_texts item \<and> \<not> lacks_key item"

definition example_description :: pyval where
  "example_description = PList
     [PDict [(''Code'', PStr ''SOS''), (''Name'', PStr ''Start of Season''),
             (''Description'', PStr ''Start of the growing season''),
             (''Method'', PStr ''seasonal_amplitude''), (''Value'', PBool True),
             (''Time'', PBool True)]]"

definition example_query_string :: string where
  "example_query_string = ''collection=S2-16D-2&band=NDVI&start_date=2021-01-01&end_date=2021-12-31&freq=16D&latitude=-29.2&longitude=-55.95''"

definition example_server :: "request \<Rightarrow> error + response" where
  "example_server r =
     (if req_url r = ''http://host/list_collections'' then
        Inr \<lparr>status_code = 200,
             resp_json = Some (PDict [(''coverages'', PList [PStr ''S2-16D-2'', PStr ''LANDSAT-16D-1''])])\<rparr>
      else if req_url r = ''http://host/describe'' then
        Inr \<lparr>status_code = 200, resp_json = Some (PDict [(''description'', example_description)])\<rparr>
      else Inl ConnectionError)"

text \<open>What the statements about charts read off a figure: the date part of a
  timestamp, the vertices of an artist, the polygons of the filled artists, and the
  path that the LIOS polygon follows.\<close>

definition date_of :: "string \<Rightarrow> string" where
  "date_of s = takeWhile (\<lambda>c. c \<noteq> CHR ''T'') s"

definition vertices :: "artist \<Rightarrow> (pyval \<times> pyval) list" where
  "vertices a = (case art_x a of PList xs \<Rightarrow> (case art_y a of PList ys \<Rightarrow> zip xs ys | _ \<Rightarrow> []) | _ \<Rightarrow> [])"

definition fill_polygons :: "figure \<Rightarrow> (pyval \<times> pyval) list list" where
  "fill_polygons fig = map vertices (filter art_filled (artists fig))"

definition lios_path :: "pyval \<Rightarrow> pyval \<Rightarrow> pyval \<Rightarrow> pyval \<Rightarrow> pyval \<Rightarrow> pyval \<Rightarrow> (pyval \<times> pyval) list" where
  "lios_path sos_t sos_v pos_t pos_v eos_t eos_v =
     [(sos_t, PInt 0), (sos_t, sos_v), (pos_t, pos_v), (eos_t, eos_v), (eos_t, PInt 0)]"

text \<open>Example data: the days of four dates of 2021 as \<^verbatim>\<open>strptime\<close> reads them, a
  point-query result and a region-query result with the record of the docstring
  example, and a record whose season starts at noon.\<close>

definition example_calendar :: "string \<Rightarrow> int option" where
  "example_calendar = map_of [(''2021-01-02'', 737792), (''2021-04-01'', 737881),
     (''2021-07-13'', 737984), (''2021-12-20'', 738144)]"

definition example_timeline :: pyval where
  "example_timeline = PList [PStr ''2021-01-02T00:00:00'', PStr ''2021-04-01T00:00:00'',
     PStr ''2021-07-13T00:00:00'', PStr ''2021-12-20T00:00:00'']"

definition example_values :: pyval where
  "example_values = PList [PFloat 7649, PFloat 9000, PFloat 5489, PInt 4817]"

definition example_point_result :: pyval where
  "example_point_result = PDict
     [(''timeseries'', PDict [(''values'', example_values), (''timeline'', example_timeline)]),
      (''phenometrics'', example_phenometrics)]"

definition example_region_result :: pyval where
  "example_region_result = PDict
     [(''timeseries'', example_values), (''timeline'', example_timeline),
      (''phenometrics'', example_phenometrics)]"

definition noon_phenometrics :: pyval where
  "noon_phenometrics = PDict
     [(''eos_t'', PStr ''2021-07-13T00:00:00''), (''eos_v'', PFloat 5489),
      (''pos_t'', PStr ''2021-04-01T00:00:00''), (''pos_v'', PFloat 9000),
      (''sos_t'', PStr ''2021-01-02T12:00:00''), (''sos_v'', PFloat 7649),
      (''vos_t'', PStr ''2021-12-20T00:00:00''), (''vos_v'', PFloat 4817)]"

definition noon_point_result :: pyval where
  "noon_point_result = PDict
     [(''timeseries'', PDict [(''values'', example_values), (''timeline'', example_timeline)]),
      (''phenometrics'', noon_phenometrics)]"

definition noon_region_result :: pyval where
  "noon_region_result = PDict
     [(''timeseries'', example_values), (''timeline'', example_timeline),
      (''phenometrics'', noon_phenometrics)]"

definition example_attr :: pyval where
  "example_attr = PList [PStr ''S2-16D-2'', PStr ''NDVI'']"

text \<open>A region (one triangle) and two points, as \<^verbatim>\<open>plot_points_region\<close>
  receives them, and a library that raises TypeError on all data the model does not
  fix.\<close>

definition example_polygon :: pyval where
  "example_polygon = PDict [(''geometry'',
     PList [PGeom [(- 55.96, - 29.21), (- 55.94, - 29.21), (- 55.94, - 29.19), (- 55.96, - 29.21)]])]"

definition strict_library :: library where
  "strict_library = \<lparr>lib_series = (\<lambda>data. Inl TypeError), lib_plot = (\<lambda>df. Inl TypeError),
     lib_scatter = (\<lambda>x y. Inl TypeError), lib_express = (\<lambda>df x y. Inl TypeError)\<rparr>"

definition example_region_phenos :: pyval where
  "example_region_phenos = PList
     [PDict [(''point'', PList [PFloat (- 55.95), PFloat (- 29.2)])],
      PDict [(''point'', PList [PFloat (- 55.94), PFloat (- 29.2)])]]"

section \<open>Basic facts\<close>

lemma and_then_Inr [simp]: "and_then (Inr v) f = f v"
  by (simp add: and_then_def)

lemma and_then_Inl [simp]: "and_then (Inl e) f = Inl e"
  by (simp add: and_then_def)

lemma and_then_eq_Inr: "and_then m f = Inr r \<longleftrightarrow> (\<exists>v. m = Inr v \<and> f v = Inr r)"
  by (cases m) simp_all

lemma getitem_eq_Inr: "getitem d k = Inr v \<longleftrightarrow> (\<exists>kvs. d = PDict kvs \<and> map_of kvs k = Some v)"
  by (cases d) (auto split: option.splits)

lemma phenometrics_query_cube:
  assumes "map_of kvs ''collection'' = Some c" and "map_of kvs ''band'' = Some b"
    and "map_of kvs ''start_date'' = Some s" and "map_of kvs ''end_date'' = Some e"
    and "map_of kvs ''freq'' = Some f"
  shows "phenometrics_query (PDict kvs) latitude longitude =
         Inr [(''collection'', c), (''band'', b), (''start_date'', s), (''end_date'', e),
              (''freq'', f), (''latitude'', latitude), (''longitude'', longitude)]"
  using assms by (simp add: phenometrics_query_def)

subsection \<open>Query strings\<close>

lemma hex_digit_in: "hex_digit n \<in> set ''0123456789ABCDEF''"
  unfolding hex_digit_def by (rule nth_mem) simp

lemma hex_digit_no_sep: "hex_digit n \<noteq> CHR ''&''" "hex_digit n \<noteq> CHR ''=''"
  using hex_digit_in [of n] by auto

lemma always_safe_no_sep: "always_safe c \<Longrightarrow> c \<noteq> CHR ''&'' \<and> c \<noteq> CHR ''=''"
  by (auto simp: always_safe_def)

lemma quote_byte_no_sep: "CHR ''&'' \<notin> set (quote_byte c)" "CHR ''='' \<notin> set (quote_byte c)"
proof -
  have "d \<noteq> CHR ''&'' \<and> d \<noteq> CHR ''=''" if "d \<in> set (quote_byte c)" for d
  proof (cases "always_safe c")
    case True
    with that have "d = c" by (simp add: quote_byte_def)
    with True show ?thesis using always_safe_no_sep by blast
  next
    case False
    with that have "d = CHR ''+'' \<or> d = CHR ''%'' \<or> (\<exists>n. d = hex_digit n)"
      by (auto simp: quote_byte_def split: if_splits)
    then show ?thesis using hex_digit_no_sep by auto
  qed
  then show "CHR ''&'' \<notin> set (quote_byte c)" "CHR ''='' \<notin> set (quote_byte c)"
    by blast+
qed

lemma quote_plus_no_sep: "CHR ''&'' \<notin> set (quote_plus s)" "CHR ''='' \<notin> set (quote_plus s)"
  using quote_byte_no_sep by (auto simp: quote_plus_def)

lemma split_on_absent: "sep \<notin> set x \<Longrightarrow> split_on sep x = [x]"
  by (induction x) auto

lemma split_on_append: "sep \<notin> set x \<Longrightarrow> split_on sep (x @ sep # rest) = x # split_on sep rest"
  by (induction x) auto

lemma split_on_join:
  "xs \<noteq> [] \<Longrightarrow> (\<forall>x\<in>set xs. sep \<notin> set x) \<Longrightarrow> split_on sep (join [sep] xs) = xs"
  by (induction "[sep]" xs rule: join.induct) (auto simp: split_on_absent split_on_append)

lemma takeWhile_before: "c \<notin> set x \<Longrightarrow> takeWhile (\<lambda>d. d \<noteq> c) (x @ c # rest) = x"
  by (induction x) auto

lemma param_names_urlencode:
  assumes "query \<noteq> []"
  shows "param_names (urlencode py_repr query) = map (\<lambda>kv. quote_plus (fst kv)) query"
proof -
  let ?piece = "\<lambda>kv. quote_plus (fst kv) @ ''='' @ quote_plus (py_str py_repr (snd kv))"
  have "\<forall>x\<in>set (map ?piece query). CHR ''&'' \<notin> set x"
    using quote_plus_no_sep(1) by auto
  then have "split_on CHR ''&'' (urlencode py_repr query) = map ?piece query"
    unfolding urlencode_def using assms split_on_join [of "map ?piece query" "CHR ''&''"] by simp
  moreover have "takeWhile (\<lambda>c. c \<noteq> CHR ''='') (?piece kv) = quote_plus (fst kv)" for kv
    using takeWhile_before [OF quote_plus_no_sep(2)] by simp
  ultimately show ?thesis
    by (simp add: param_names_def)
qed

lemma quote_plus_names:
  "quote_plus ''collection'' = ''collection''" "quote_plus ''band'' = ''band''"
  "quote_plus ''start_date'' = ''start_date''" "quote_plus ''end_date'' = ''end_date''"
  "quote_plus ''freq'' = ''freq''" "quote_plus ''latitude'' = ''latitude''"
  "quote_plus ''longitude'' = ''longitude''"
  by (simp_all add: quote_plus_def quote_byte_def always_safe_def)


subsection \<open>Sequencing\<close>

lemma and_then_eq_Inl:
  "and_then m f = Inl e \<longleftrightarrow> m = Inl e \<or> (\<exists>v. m = Inr v \<and> f v = Inl e)"
  by (cases m) simp_all

lemma and_then_InlE:
  assumes "and_then m f = Inl e"
  obtains "m = Inl e" | v where "m = Inr v" and "f v = Inl e"
  using assms by (cases m) simp_all


lemma and_then_InrE:
  assumes "and_then m f = Inr r"
  obtains v where "m = Inr v" and "f v = Inr r"
  using assms by (cases m) simp_all


lemma and_then_const:
  "and_then m (\<lambda>_. k) = (case map_sum id (\<lambda>_. ()) m of Inl e \<Rightarrow> Inl e | Inr _ \<Rightarrow> k)"
  by (cases m) simp_all

lemma getitem_error: "getitem d k = Inl e \<Longrightarrow> e = TypeError \<or> e = KeyError k"
  by (cases d) (auto split: option.splits)

lemma add_str_error: "add_str s v = Inl e \<Longrightarrow> e = TypeError"
  by (cases v) (auto simp: add_str_def)

lemma add_str_is_str: "is_str v \<Longrightarrow> \<exists>t. add_str s v = Inr t"
  by (cases v) (auto simp: add_str_def is_str_def)

subsection \<open>The HTML table of \<^verbatim>\<open>get_description\<close>\<close>

lemma html_row_error_kind:
  assumes "html_row py_repr item = Inl e"
  shows "e = TypeError \<or> (\<exists>k\<in>set description_keys. e = KeyError k)"
  using assms unfolding html_row_def and_then_eq_Inl description_keys_def
  by (auto dest!: getitem_error add_str_error)

lemma html_row_needs_keys:
  assumes "html_row py_repr item = Inr row"
  shows "\<not> lacks_key item"
  using assms unfolding html_row_def and_then_eq_Inr getitem_eq_Inr
  by (auto simp: lacks_key_def description_keys_def)

lemma html_row_strings:
  assumes "object_with_string_texts item" and "html_row py_repr item = Inl e"
  shows "\<exists>k\<in>set description_keys. e = KeyError k"
proof -
  from assms(1) obtain kvs where item: "item = PDict kvs"
    by (cases item) (auto simp: object_with_string_texts_def)
  have str: "False" if "k \<in> set [''Code'', ''Name'', ''Description'', ''Method'']"
      and "getitem item k = Inr v" and "add_str s v = Inl e" for s k v
  proof -
    from that(2) item have "map_of kvs k = Some v" by (simp split: option.splits)
    with assms(1) that(1) item have "is_str v"
      by (auto simp: object_with_string_texts_def)
    then show False using add_str_is_str [of v s] that(3) by auto
  qed
  have key: "\<exists>k'\<in>set description_keys. e = KeyError k'"
    if "k \<in> set description_keys" and "getitem item k = Inl e" for k
    using that item by (auto split: option.splits)
  from assms(2) show ?thesis
    unfolding html_row_def
  proof (elim and_then_InlE)
    assume "getitem item ''Code'' = Inl e"
    then show ?thesis by (intro key [of "''Code''"]) (simp_all add: description_keys_def)
  next
    fix v assume "getitem item ''Code'' = Inr v" "add_str (''<tr>'' @ ''<td>'') v = Inl e"
    then show ?thesis using str [of "''Code''" v] by auto
  next
    assume "getitem item ''Name'' = Inl e"
    then show ?thesis by (intro key [of "''Name''"]) (simp_all add: description_keys_def)
  next
    fix s v assume "getitem item ''Name'' = Inr v" "add_str (s @ ''</td>'' @ ''<td>'') v = Inl e"
    then show ?thesis using str [of "''Name''" v] by auto
  next
    assume "getitem item ''Description'' = Inl e"
    then show ?thesis by (intro key [of "''Description''"]) (simp_all add: description_keys_def)
  next
    fix s v assume "getitem item ''Description'' = Inr v" "add_str (s @ ''</td>'' @ ''<td>'') v = Inl e"
    then show ?thesis using str [of "''Description''" v] by auto
  next
    assume "getitem item ''Method'' = Inl e"
    then show ?thesis by (intro key [of "''Method''"]) (simp_all add: description_keys_def)
  next
    fix s v assume "getitem item ''Method'' = Inr v" "add_str (s @ ''</td>'' @ ''<td>'') v = Inl e"
    then show ?thesis using str [of "''Method''" v] by auto
  next
    assume "getitem item ''Value'' = Inl e"
    then show ?thesis by (intro key [of "''Value''"]) (simp_all add: description_keys_def)
  next
    assume "getitem item ''Time'' = Inl e"
    then show ?thesis by (intro key [of "''Time''"]) (simp_all add: description_keys_def)
  qed simp
qed

lemma html_row_repr:
  "map_sum id (\<lambda>_. ()) (html_row r1 item) = map_sum id (\<lambda>_. ()) (html_row r2 item)"
  by (auto simp: html_row_def and_then_def split: sum.splits)

lemma html_rows_repr:
  "map_sum id (\<lambda>_. ()) (html_rows r1 t1 items) = map_sum id (\<lambda>_. ()) (html_rows r2 t2 items)"
proof (induction items arbitrary: t1 t2)
  case Nil
  show ?case by simp
next
  case (Cons item items)
  show ?case
  proof (cases "html_row r1 item")
    case (Inl e)
    with html_row_repr [of r1 item r2] have "html_row r2 item = Inl e"
      by (cases "html_row r2 item") auto
    with Inl show ?thesis by simp
  next
    case (Inr row1)
    with html_row_repr [of r1 item r2] obtain row2 where "html_row r2 item = Inr row2"
      by (cases "html_row r2 item") auto
    with Inr Cons.IH [of "t1 @ row1" "t2 @ row2"] show ?thesis by simp
  qed
qed

lemma html_rows_error_kind:
  "html_rows py_repr t items = Inl e \<Longrightarrow>
     e = TypeError \<or> (\<exists>k\<in>set description_keys. e = KeyError k)"
proof (induction items arbitrary: t)
  case Nil
  then show ?case by simp
next
  case (Cons item items)
  then show ?case
    by (auto simp: and_then_eq_Inl dest: html_row_error_kind)
qed

lemma html_rows_lacking:
  "\<exists>item\<in>set items. lacks_key item \<Longrightarrow> \<exists>e. html_rows py_repr t items = Inl e"
proof (induction items arbitrary: t)
  case Nil
  then show ?case by simp
next
  case (Cons item items)
  show ?case
  proof (cases "html_row py_repr item")
    case (Inl e)
    then show ?thesis by simp
  next
    case (Inr row)
    then have "\<not> lacks_key item" by (rule html_row_needs_keys)
    with Cons.prems have "\<exists>item\<in>set items. lacks_key item" by auto
    from Cons.IH [OF this, of "t @ row"] Inr show ?thesis by simp
  qed
qed

lemma html_rows_strings:
  "\<forall>item\<in>set items. object_with_string_texts item \<Longrightarrow> html_rows py_repr t items = Inl e \<Longrightarrow>
     \<exists>k\<in>set description_keys. e = KeyError k"
proof (induction items arbitrary: t)
  case Nil
  then show ?case by simp
next
  case (Cons item items)
  from Cons.prems(2) have "html_row py_repr item = Inl e \<or>
      (\<exists>row. html_row py_repr item = Inr row \<and> html_rows py_repr (t @ row) items = Inl e)"
    by (simp add: and_then_eq_Inl)
  then show ?case
  proof
    assume "html_row py_repr item = Inl e"
    with Cons.prems(1) show ?thesis using html_row_strings [of item py_repr e] by simp
  next
    assume "\<exists>row. html_row py_repr item = Inr row \<and> html_rows py_repr (t @ row) items = Inl e"
    then obtain row where "html_rows py_repr (t @ row) items = Inl e" by blast
    with Cons.IH [of "t @ row"] Cons.prems(1) show ?thesis by simp
  qed
qed

lemma html_row_ok:
  assumes "item_ok item"
  shows "\<exists>row. html_row py_repr item = Inr row"
proof -
  from assms obtain kvs where item: "item = PDict kvs"
    by (cases item) (auto simp: item_ok_def object_with_string_texts_def)
  have present: "\<exists>v. map_of kvs k = Some v" if "k \<in> set description_keys" for k
    using assms that item by (auto simp: item_ok_def lacks_key_def)
  have texts: "\<exists>t. map_of kvs k = Some (PStr t)"
    if "k \<in> set [''Code'', ''Name'', ''Description'', ''Method'']" for k
  proof -
    from that have "k \<in> set description_keys" by (auto simp: description_keys_def)
    from present [OF this] obtain v where v: "map_of kvs k = Some v" by blast
    with assms that item have "is_str v"
      by (auto simp: item_ok_def object_with_string_texts_def)
    with v show ?thesis by (cases v) (auto simp: is_str_def)
  qed
  obtain c where c: "map_of kvs ''Code'' = Some (PStr c)" using texts [of "''Code''"] by auto
  obtain n where n: "map_of kvs ''Name'' = Some (PStr n)" using texts [of "''Name''"] by auto
  obtain d where d: "map_of kvs ''Description'' = Some (PStr d)"
    using texts [of "''Description''"] by auto
  obtain m where m: "map_of kvs ''Method'' = Some (PStr m)" using texts [of "''Method''"] by auto
  obtain val where v: "map_of kvs ''Value'' = Some val"
    using present [of "''Value''"] by (auto simp: description_keys_def)
  obtain t where t: "map_of kvs ''Time'' = Some t"
    using present [of "''Time''"] by (auto simp: description_keys_def)
  show ?thesis
    unfolding html_row_def item using c n d m v t by (simp add: add_str_def)
qed

lemma html_rows_ok:
  "\<forall>item\<in>set items. item_ok item \<Longrightarrow> \<exists>table. html_rows py_repr t items = Inr table"
proof (induction items arbitrary: t)
  case Nil
  show ?case by simp
next
  case (Cons item items)
  from Cons.prems obtain row where "html_row py_repr item = Inr row"
    using html_row_ok [of item py_repr] by auto
  with Cons.IH [of "t @ row"] Cons.prems show ?case by simp
qed

lemma get_description_unfold:
  "fst (get_description py_repr url w) =
     and_then (net w \<lparr>req_method = GET, req_url = url @ ''/describe'', req_json = None\<rparr>) (\<lambda>d.
     and_then (response_json d) (\<lambda>data_json.
     and_then (getitem data_json ''description'') (\<lambda>description.
     and_then (py_iter description) (\<lambda>items.
     and_then (html_rows py_repr html_header items) (\<lambda>html_table.
     Inr description)))))"
proof -
  have "and_then (getitem j ''description'') (\<lambda>description.
          and_then (py_iter description) (\<lambda>items.
          and_then (html_rows py_repr html_header items) (\<lambda>html_table. getitem j ''description'')))
      = and_then (getitem j ''description'') (\<lambda>description.
          and_then (py_iter description) (\<lambda>items.
          and_then (html_rows py_repr html_header items) (\<lambda>html_table. Inr description)))" for j
    by (cases "getitem j ''description''") (auto simp: and_then_def split: sum.splits)
  then show ?thesis
    by (simp add: get_description_def requests_get_def Let_def)
qed

lemma get_description_body:
  assumes "net w \<lparr>req_method = GET, req_url = url @ ''/describe'', req_json = None\<rparr> = Inr resp"
    and "resp_json resp = Some (PDict body)" and "map_of body ''description'' = Some (PList items)"
  shows "fst (get_description py_repr url w) =
           and_then (html_rows py_repr html_header items) (\<lambda>html_table. Inr (PList items))"
  using assms by (simp add: get_description_unfold response_json_def py_iter_def)

lemma example_description_ok: "\<forall>item\<in>set [PDict
           [(''Code'', PStr ''SOS''), (''Name'', PStr ''Start of Season''),
            (''Description'', PStr ''Start of the growing season''),
            (''Method'', PStr ''seasonal_amplitude''), (''Value'', PBool True),
            (''Time'', PBool True)]]. item_ok item"
  by (simp add: item_ok_def object_with_string_texts_def lacks_key_def description_keys_def
      is_str_def)

lemma example_urlencode:
  "urlencode example_repr
     [(''collection'', PStr ''S2-16D-2''), (''band'', PStr ''NDVI''),
      (''start_date'', PStr ''2021-01-01''), (''end_date'', PStr ''2021-12-31''),
      (''freq'', PStr ''16D''), (''latitude'', example_latitude), (''longitude'', example_longitude)]
   = example_query_string"
  by (simp add: urlencode_def quote_plus_def quote_byte_def always_safe_def py_str_def
      example_repr_def example_query_string_def example_latitude_def example_longitude_def)

subsection \<open>Dates and traces\<close>

lemma split_on_takeWhile:
  "\<exists>rest. split_on sep s = takeWhile (\<lambda>c. c \<noteq> sep) s # rest"
  by (induction s) (auto split: list.splits)

lemma date_part_PStr [simp]: "date_part (PStr s) = Inr (date_of s)"
  using split_on_takeWhile [of "CHR ''T''" s] by (auto simp: date_part_def date_of_def)

lemma date_part_eq_Inr: "date_part v = Inr d \<longleftrightarrow> (\<exists>s. v = PStr s \<and> d = date_of s)"
  by (cases v) (auto simp: date_part_def [of PNone] date_part_def [of "PBool _"]
      date_part_def [of "PInt _"] date_part_def [of "PFloat _"] date_part_def [of "PDate _"]
      date_part_def [of "PGeom _"]
      date_part_def [of "PList _"] date_part_def [of "PDict _"])

lemma strptime_eq_Inr: "strptime calendar s = Inr d \<longleftrightarrow> calendar s = Some d"
  by (simp add: strptime_def split: option.splits)

lemma parsed_day_eq_Inr:
  "parsed_day calendar ph k = Inr d \<longleftrightarrow>
     (\<exists>s. getitem ph k = Inr (PStr s) \<and> calendar (date_of s) = Some d)"
  by (auto simp: parsed_day_def and_then_eq_Inr date_part_eq_Inr strptime_eq_Inr)

lemma add_days_eq_Inr: "add_days d k = Inr r \<Longrightarrow> r = d + k"
  by (simp add: add_days_def split: if_splits)

lemma uncertainty_band_eq_Inr: "uncertainty_band t = Inr b \<Longrightarrow> b = (t - 16, t + 16)"
  by (auto simp: uncertainty_band_def and_then_eq_Inr dest!: add_days_eq_Inr)

lemma lios_trace_record:
  assumes "getitem ph ''sos_t'' = Inr (PStr sos_t)" and "getitem ph ''sos_v'' = Inr sos_v"
    and "getitem ph ''pos_t'' = Inr (PStr pos_t)" and "getitem ph ''pos_v'' = Inr pos_v"
    and "getitem ph ''eos_t'' = Inr (PStr eos_t)" and "getitem ph ''eos_v'' = Inr eos_v"
  shows "lios_trace ph =
     Inr (scatter (PStr ''LIOS'') ''lines''
            (PList [PStr (date_of sos_t), PStr (date_of sos_t), PStr (date_of pos_t),
                    PStr (date_of eos_t), PStr (date_of eos_t)])
            (PList [PInt 0, sos_v, pos_v, eos_v, PInt 0]) True)"
  using assms by (simp add: lios_trace_def pheno_date_def)

lemma not_filled:
  "band_trace cube timeline timeseries = Inr a \<Longrightarrow> \<not> art_filled a"
  "smooth_trace cube timeline y_new = Inr a \<Longrightarrow> \<not> art_filled a"
  "los_trace ph = Inr a \<Longrightarrow> \<not> art_filled a"
  "aos_trace ph = Inr a \<Longrightarrow> \<not> art_filled a"
  "marker_trace label key_t key_v ph = Inr a \<Longrightarrow> \<not> art_filled a"
  by (auto simp: band_trace_def smooth_trace_def los_trace_def aos_trace_def marker_trace_def
      and_then_eq_Inr scatter_def)

lemma vertices_scatter [simp]: "vertices (scatter n m (PList xs) (PList ys) f) = zip xs ys"
  by (simp add: vertices_def scatter_def)

lemma vertices_ax_call [simp]: "vertices (ax_call c n m (PList xs) (PList ys) f) = zip xs ys"
  by (simp add: vertices_def ax_call_def)

lemma filled_simps [simp]:
  "art_filled (scatter n m x y f) = f" "art_filled (ax_call c n m x y f) = f"
  by (simp_all add: scatter_def ax_call_def)

lemma plot_phenometrics_polygon:
  assumes "getitem ds_phenos ''phenometrics'' = Inr ph"
    and "getitem ph ''sos_t'' = Inr (PStr sos_t)" and "getitem ph ''sos_v'' = Inr sos_v"
    and "getitem ph ''pos_t'' = Inr (PStr pos_t)" and "getitem ph ''pos_v'' = Inr pos_v"
    and "getitem ph ''eos_t'' = Inr (PStr eos_t)" and "getitem ph ''eos_v'' = Inr eos_v"
    and "plot_phenometrics calendar cube ds_phenos = Inr fig"
  shows "fill_polygons fig =
     [lios_path (PStr (date_of sos_t)) sos_v (PStr (date_of pos_t)) pos_v (PStr (date_of eos_t)) eos_v]"
  using assms(8) unfolding plot_phenometrics_def
proof (elim and_then_InrE)
  fix ts0 values0 y_new ts1 timeline ts2 timeseries phenometrics window lios raw smooth los aos
    sos pos eos vos
  assume ph: "getitem ds_phenos ''phenometrics'' = Inr phenometrics"
    and l: "lios_trace phenometrics = Inr lios"
    and others: "band_trace cube timeline timeseries = Inr raw"
      "smooth_trace cube timeline y_new = Inr smooth"
      "los_trace phenometrics = Inr los" "aos_trace phenometrics = Inr aos"
      "marker_trace ''SOS'' ''sos_t'' ''sos_v'' phenometrics = Inr sos"
      "marker_trace ''POS'' ''pos_t'' ''pos_v'' phenometrics = Inr pos"
      "marker_trace ''EOS'' ''eos_t'' ''eos_v'' phenometrics = Inr eos"
      "marker_trace ''VOS'' ''vos_t'' ''vos_v'' phenometrics = Inr vos"
    and fig: "Inr \<lparr>artists = [lios, raw, smooth, los, aos, sos, pos, eos, vos], vrects = [],
            fig_title = []\<rparr> = Inr fig"
  from ph assms(1) have "phenometrics = ph" by simp
  with l lios_trace_record [OF assms(2-7)] have lios: "lios = scatter (PStr ''LIOS'') ''lines''
            (PList [PStr (date_of sos_t), PStr (date_of sos_t), PStr (date_of pos_t),
                    PStr (date_of eos_t), PStr (date_of eos_t)])
            (PList [PInt 0, sos_v, pos_v, eos_v, PInt 0]) True"
    by simp
  from others have "\<not> art_filled raw" "\<not> art_filled smooth" "\<not> art_filled los"
    "\<not> art_filled aos" "\<not> art_filled sos" "\<not> art_filled pos" "\<not> art_filled eos"
    "\<not> art_filled vos"
    by (simp_all add: not_filled)
  with fig lios show ?thesis
    by (auto simp: fill_polygons_def lios_path_def)
qed

lemma plot_phenometrics_no_bands:
  "plot_phenometrics calendar cube ds_phenos = Inr fig \<Longrightarrow> vrects fig = []"
  unfolding plot_phenometrics_def by (elim and_then_InrE) auto

lemma matplotlib_no_bands:
  "plot_phenometrics_matplotlib py_repr calendar cube ds_phenos attr = Inr fig \<Longrightarrow> vrects fig = []"
  unfolding plot_phenometrics_matplotlib_def by (elim and_then_InrE) auto

lemma seaborn_no_bands:
  "plot_phenometrics_seaborn py_repr calendar cube ds_phenos attr = Inr fig \<Longrightarrow> vrects fig = []"
  unfolding plot_phenometrics_seaborn_def by (elim and_then_InrE) auto

lemma plot_advanced_polygon:
  assumes "getitem ds_phenos ''phenometrics'' = Inr ph"
    and "getitem ph ''sos_t'' = Inr (PStr sos_t)" and "getitem ph ''sos_v'' = Inr sos_v"
    and "getitem ph ''pos_t'' = Inr (PStr pos_t)" and "getitem ph ''pos_v'' = Inr pos_v"
    and "getitem ph ''eos_t'' = Inr (PStr eos_t)" and "getitem ph ''eos_v'' = Inr eos_v"
    and "plot_advanced_phenometrics calendar cube ds_phenos = Inr fig"
  shows "fill_polygons fig =
     [lios_path (PStr (date_of sos_t)) sos_v (PStr (date_of pos_t)) pos_v (PStr (date_of eos_t)) eos_v]"
  using assms(8) unfolding plot_advanced_phenometrics_def
proof (elim and_then_InrE)
  fix values0 y_new timeline0 timeline timeseries0 timeseries phenometrics window lios raw smooth
    aos sos pos vos eos sos_time eos_time band1 band2
  assume ph: "getitem ds_phenos ''phenometrics'' = Inr phenometrics"
    and l: "lios_trace phenometrics = Inr lios"
    and others: "band_trace cube timeline timeseries = Inr raw"
      "smooth_trace cube timeline y_new = Inr smooth"
      "aos_trace phenometrics = Inr aos"
      "marker_trace ''SOS'' ''sos_t'' ''sos_v'' phenometrics = Inr sos"
      "marker_trace ''POS'' ''pos_t'' ''pos_v'' phenometrics = Inr pos"
      "marker_trace ''VOS'' ''vos_t'' ''vos_v'' phenometrics = Inr vos"
      "marker_trace ''EOS'' ''eos_t'' ''eos_v'' phenometrics = Inr eos"
    and fig: "Inr \<lparr>artists = [lios, raw, smooth, aos, sos, pos, vos, eos], vrects = [band1, band2],
            fig_title = []\<rparr> = Inr fig"
  from ph assms(1) have "phenometrics = ph" by simp
  with l lios_trace_record [OF assms(2-7)] have lios: "lios = scatter (PStr ''LIOS'') ''lines''
            (PList [PStr (date_of sos_t), PStr (date_of sos_t), PStr (date_of pos_t),
                    PStr (date_of eos_t), PStr (date_of eos_t)])
            (PList [PInt 0, sos_v, pos_v, eos_v, PInt 0]) True"
    by simp
  from others have "\<not> art_filled raw" "\<not> art_filled smooth"
    "\<not> art_filled aos" "\<not> art_filled sos" "\<not> art_filled pos" "\<not> art_filled vos"
    "\<not> art_filled eos"
    by (simp_all add: not_filled)
  with fig lios show ?thesis
    by (auto simp: fill_polygons_def lios_path_def)
qed

lemma matplotlib_polygon:
  assumes "getitem ds_phenos ''phenometrics'' = Inr ph"
    and "getitem ph ''sos_t'' = Inr (PStr sos_t)" and "getitem ph ''sos_v'' = Inr sos_v"
    and "getitem ph ''pos_t'' = Inr (PStr pos_t)" and "getitem ph ''pos_v'' = Inr pos_v"
    and "getitem ph ''eos_t'' = Inr (PStr eos_t)" and "getitem ph ''eos_v'' = Inr eos_v"
    and "plot_phenometrics_matplotlib py_repr calendar cube ds_phenos attr = Inr fig"
  shows "\<exists>s p e. calendar (date_of sos_t) = Some s \<and> calendar (date_of pos_t) = Some p \<and>
           calendar (date_of eos_t) = Some e \<and>
           fill_polygons fig = [lios_path (PDate s) sos_v (PDate p) pos_v (PDate e) eos_v]"
  using assms(8) unfolding plot_phenometrics_matplotlib_def
proof (elim and_then_InrE)
  fix phenometrics s p e sv pv ev vv vt band band' timeline timeseries y_new the_title
  assume ph: "getitem ds_phenos ''phenometrics'' = Inr phenometrics"
    and days: "parsed_day calendar phenometrics ''sos_t'' = Inr s"
      "parsed_day calendar phenometrics ''pos_t'' = Inr p"
      "parsed_day calendar phenometrics ''eos_t'' = Inr e"
    and vals: "getitem phenometrics ''sos_v'' = Inr sv" "getitem phenometrics ''pos_v'' = Inr pv"
      "getitem phenometrics ''eos_v'' = Inr ev"
    and fig: "Inr \<lparr>artists =
              [ax_call ''ax.fill'' (PStr ''LIOS'') []
                 (PList [PDate s, PDate s, PDate p, PDate e, PDate e])
                 (PList [PInt 0, sv, pv, ev, PInt 0]) True,
               ax_call ''ax.plot'' band [] (PList timeline) timeseries False,
               ax_call ''ax.plot'' (PStr (''Smooth '' @ py_str py_repr band')) []
                 (PList timeline) y_new False,
               ax_call ''ax.plot'' (PStr ''LOS'') [] (PList [PDate s, PDate e])
                 (PList [sv, ev]) False,
               ax_call ''ax.plot'' (PStr ''AOS'') [] (PList [PDate p, PDate p])
                 (PList [pv, PInt 0]) False,
               ax_call ''ax.plot'' (PStr ''SOS'') ''o'' (PDate s) sv False,
               ax_call ''ax.plot'' (PStr ''POS'') ''o'' (PDate p) pv False,
               ax_call ''ax.plot'' (PStr ''EOS'') ''o'' (PDate e) ev False,
               ax_call ''ax.plot'' (PStr ''VOS'') ''o'' (PDate vt) vv False],
            vrects = [], fig_title = the_title\<rparr> = Inr fig"
  from ph assms(1) have eq: "phenometrics = ph" by simp
  from days assms(2,4,6) have "calendar (date_of sos_t) = Some s"
    "calendar (date_of pos_t) = Some p" "calendar (date_of eos_t) = Some e"
    unfolding eq by (simp_all add: parsed_day_eq_Inr)
  moreover from vals assms(3,5,7) have "sv = sos_v" "pv = pos_v" "ev = eos_v"
    unfolding eq by simp_all
  ultimately show ?thesis using fig
    by (auto simp: fill_polygons_def lios_path_def)
qed

lemma seaborn_polygon:
  assumes "getitem ds_phenos ''phenometrics'' = Inr ph"
    and "getitem ph ''sos_t'' = Inr (PStr sos_t)" and "getitem ph ''sos_v'' = Inr sos_v"
    and "getitem ph ''pos_t'' = Inr (PStr pos_t)" and "getitem ph ''pos_v'' = Inr pos_v"
    and "getitem ph ''eos_t'' = Inr (PStr eos_t)" and "getitem ph ''eos_v'' = Inr eos_v"
    and "plot_phenometrics_seaborn py_repr calendar cube ds_phenos attr = Inr fig"
  shows "\<exists>s p e. calendar (date_of sos_t) = Some s \<and> calendar (date_of pos_t) = Some p \<and>
           calendar (date_of eos_t) = Some e \<and>
           fill_polygons fig = [lios_path (PDate s) sos_v (PDate p) pos_v (PDate e) eos_v]"
  using assms(8) unfolding plot_phenometrics_seaborn_def
proof (elim and_then_InrE)
  fix phenometrics s p e sv pv ev vv vt band band' timeline timeseries y_new the_title
  assume ph: "getitem ds_phenos ''phenometrics'' = Inr phenometrics"
    and days: "parsed_day calendar phenometrics ''sos_t'' = Inr s"
      "parsed_day calendar phenometrics ''pos_t'' = Inr p"
      "parsed_day calendar phenometrics ''eos_t'' = Inr e"
    and vals: "getitem phenometrics ''sos_v'' = Inr sv" "getitem phenometrics ''pos_v'' = Inr pv"
      "getitem phenometrics ''eos_v'' = Inr ev"
    and fig: "Inr \<lparr>artists =
              [ax_call ''ax.fill'' (PStr ''LIOS'') []
                 (PList [PDate s, PDate s, PDate p, PDate e, PDate e])
                 (PList [PInt 0, sv, pv, ev, PInt 0]) True,
               ax_call ''sns.lineplot'' band [] (PList timeline) timeseries False,
               ax_call ''sns.lineplot'' (PStr (''Smooth '' @ py_str py_repr band')) []
                 (PList timeline) y_new False,
               ax_call ''ax.plot'' (PStr ''LOS'') [] (PList [PDate s, PDate e])
                 (PList [sv, ev]) False,
               ax_call ''ax.plot'' (PStr ''AOS'') [] (PList [PDate p, PDate p])
                 (PList [PInt 0, pv]) False,
               ax_call ''sns.scatterplot'' (PStr ''SOS'') [] (PList [PDate s]) (PList [sv]) False,
               ax_call ''sns.scatterplot'' (PStr ''POS'') [] (PList [PDate p]) (PList [pv]) False,
               ax_call ''sns.scatterplot'' (PStr ''EOS'') [] (PList [PDate e]) (PList [ev]) False,
               ax_call ''sns.scatterplot'' (PStr ''VOS'') [] (PList [PDate vt]) (PList [vv]) False],
            vrects = [], fig_title = the_title\<rparr> = Inr fig"
  from ph assms(1) have eq: "phenometrics = ph" by simp
  from days assms(2,4,6) have "calendar (date_of sos_t) = Some s"
    "calendar (date_of pos_t) = Some p" "calendar (date_of eos_t) = Some e"
    unfolding eq by (simp_all add: parsed_day_eq_Inr)
  moreover from vals assms(3,5,7) have "sv = sos_v" "pv = pos_v" "ev = eos_v"
    unfolding eq by simp_all
  ultimately show ?thesis using fig
    by (auto simp: fill_polygons_def lios_path_def)
qed

lemma plot_advanced_bands:
  assumes "plot_advanced_phenometrics calendar cube ds_phenos = Inr fig"
  shows "\<exists>ph sos_t eos_t s e.
           getitem ds_phenos ''phenometrics'' = Inr ph \<and>
           getitem ph ''sos_t'' = Inr (PStr sos_t) \<and> getitem ph ''eos_t'' = Inr (PStr eos_t) \<and>
           calendar (date_of sos_t) = Some s \<and> calendar (date_of eos_t) = Some e \<and>
           vrects fig = [(s - 16, s + 16), (e - 16, e + 16)]"
  using assms unfolding plot_advanced_phenometrics_def
proof (elim and_then_InrE)
  fix phenometrics sos_time eos_time band1 band2 lios raw smooth aos sos pos vos eos
  assume ph: "getitem ds_phenos ''phenometrics'' = Inr phenometrics"
    and days: "parsed_day calendar phenometrics ''sos_t'' = Inr sos_time"
      "parsed_day calendar phenometrics ''eos_t'' = Inr eos_time"
    and bands: "uncertainty_band sos_time = Inr band1" "uncertainty_band eos_time = Inr band2"
    and fig: "Inr \<lparr>artists = [lios, raw, smooth, aos, sos, pos, vos, eos], vrects = [band1, band2],
            fig_title = []\<rparr> = Inr fig"
  from days obtain sos_t eos_t where
    "getitem phenometrics ''sos_t'' = Inr (PStr sos_t)" "calendar (date_of sos_t) = Some sos_time"
    "getitem phenometrics ''eos_t'' = Inr (PStr eos_t)" "calendar (date_of eos_t) = Some eos_time"
    by (auto simp: parsed_day_eq_Inr)
  moreover from bands have "band1 = (sos_time - 16, sos_time + 16)"
    "band2 = (eos_time - 16, eos_time + 16)"
    by (simp_all add: uncertainty_band_eq_Inr)
  ultimately show ?thesis using ph fig by auto
qed

subsection \<open>The builders on the example data\<close>

lemma example_smoothed:
  "smoothed example_values = Inr (PList [PFloat (25378 / 3), PFloat (22138 / 3),
     PFloat (19306 / 3), PFloat (26063 / 6)])"
proof -
  have "[0..<4] = [0, 1, 2, 3]" by (simp add: upt_rec)
  then show ?thesis
    by (simp add: smoothed_def example_values_def np_asarray_def is_number_def number_value_def
        smooth_timeseries_def savgol_filter_def Let_def)
qed

lemma example_days:
  "parsed_day example_calendar example_phenometrics ''sos_t'' = Inr 737792"
  "parsed_day example_calendar example_phenometrics ''pos_t'' = Inr 737881"
  "parsed_day example_calendar example_phenometrics ''eos_t'' = Inr 737984"
  "parsed_day example_calendar example_phenometrics ''vos_t'' = Inr 738144"
  by (simp_all add: parsed_day_def example_phenometrics_def date_of_def strptime_def
      example_calendar_def)

lemma noon_days:
  "parsed_day example_calendar noon_phenometrics ''sos_t'' = Inr 737792"
  "parsed_day example_calendar noon_phenometrics ''pos_t'' = Inr 737881"
  "parsed_day example_calendar noon_phenometrics ''eos_t'' = Inr 737984"
  "parsed_day example_calendar noon_phenometrics ''vos_t'' = Inr 738144"
  by (simp_all add: parsed_day_def noon_phenometrics_def date_of_def strptime_def
      example_calendar_def)

lemma example_window:
  "pos_t_window example_calendar example_phenometrics = Inr (737876, 737886)"
  "pos_t_window example_calendar noon_phenometrics = Inr (737876, 737886)"
  by (simp_all add: pos_t_window_def example_days noon_days add_days_def)

lemma example_traces:
  "\<exists>a. lios_trace example_phenometrics = Inr a"
  "\<exists>a. los_trace example_phenometrics = Inr a"
  "\<exists>a. aos_trace example_phenometrics = Inr a"
  "\<exists>a. marker_trace ''SOS'' ''sos_t'' ''sos_v'' example_phenometrics = Inr a"
  "\<exists>a. marker_trace ''POS'' ''pos_t'' ''pos_v'' example_phenometrics = Inr a"
  "\<exists>a. marker_trace ''EOS'' ''eos_t'' ''eos_v'' example_phenometrics = Inr a"
  "\<exists>a. marker_trace ''VOS'' ''vos_t'' ''vos_v'' example_phenometrics = Inr a"
  by (simp_all add: lios_trace_def los_trace_def aos_trace_def marker_trace_def pheno_date_def
      example_phenometrics_def)

lemma noon_traces:
  "\<exists>a. lios_trace noon_phenometrics = Inr a"
  "\<exists>a. los_trace noon_phenometrics = Inr a"
  "\<exists>a. aos_trace noon_phenometrics = Inr a"
  "\<exists>a. marker_trace ''SOS'' ''sos_t'' ''sos_v'' noon_phenometrics = Inr a"
  "\<exists>a. marker_trace ''POS'' ''pos_t'' ''pos_v'' noon_phenometrics = Inr a"
  "\<exists>a. marker_trace ''EOS'' ''eos_t'' ''eos_v'' noon_phenometrics = Inr a"
  "\<exists>a. marker_trace ''VOS'' ''vos_t'' ''vos_v'' noon_phenometrics = Inr a"
  by (simp_all add: lios_trace_def los_trace_def aos_trace_def marker_trace_def pheno_date_def
      noon_phenometrics_def)

lemma example_series_traces:
  "\<exists>a. band_trace example_cube t v = Inr a"
  "\<exists>a. smooth_trace example_cube t v = Inr a"
  by (simp_all add: band_trace_def smooth_trace_def example_cube_def cube_query_def add_str_def)

lemma example_plot_phenometrics:
  "\<exists>fig. plot_phenometrics example_calendar example_cube example_point_result = Inr fig"
proof -
  from example_traces example_series_traces obtain a1 a2 a3 a4 a5 a6 a7 a8 a9 where
    "lios_trace example_phenometrics = Inr a1"
    "band_trace example_cube example_timeline example_values = Inr a2"
    "smooth_trace example_cube example_timeline (PList [PFloat (25378 / 3), PFloat (22138 / 3),
       PFloat (19306 / 3), PFloat (26063 / 6)]) = Inr a3"
    "los_trace example_phenometrics = Inr a4" "aos_trace example_phenometrics = Inr a5"
    "marker_trace ''SOS'' ''sos_t'' ''sos_v'' example_phenometrics = Inr a6"
    "marker_trace ''POS'' ''pos_t'' ''pos_v'' example_phenometrics = Inr a7"
    "marker_trace ''EOS'' ''eos_t'' ''eos_v'' example_phenometrics = Inr a8"
    "marker_trace ''VOS'' ''vos_t'' ''vos_v'' example_phenometrics = Inr a9"
    by metis
  then show ?thesis
    by (simp add: plot_phenometrics_def example_point_result_def example_smoothed example_window)
qed

lemma noon_plot_phenometrics:
  "\<exists>fig. plot_phenometrics example_calendar example_cube noon_point_result = Inr fig"
proof -
  from noon_traces example_series_traces obtain a1 a2 a3 a4 a5 a6 a7 a8 a9 where
    "lios_trace noon_phenometrics = Inr a1"
    "band_trace example_cube example_timeline example_values = Inr a2"
    "smooth_trace example_cube example_timeline (PList [PFloat (25378 / 3), PFloat (22138 / 3),
       PFloat (19306 / 3), PFloat (26063 / 6)]) = Inr a3"
    "los_trace noon_phenometrics = Inr a4" "aos_trace noon_phenometrics = Inr a5"
    "marker_trace ''SOS'' ''sos_t'' ''sos_v'' noon_phenometrics = Inr a6"
    "marker_trace ''POS'' ''pos_t'' ''pos_v'' noon_phenometrics = Inr a7"
    "marker_trace ''EOS'' ''eos_t'' ''eos_v'' noon_phenometrics = Inr a8"
    "marker_trace ''VOS'' ''vos_t'' ''vos_v'' noon_phenometrics = Inr a9"
    by metis
  then show ?thesis
    by (simp add: plot_phenometrics_def noon_point_result_def example_smoothed example_window)
qed

lemma example_plot_advanced:
  "\<exists>fig. plot_advanced_phenometrics example_calendar example_cube example_region_result = Inr fig"
proof -
  have v: "first_21 example_values = Inr example_values"
    and t: "first_21 example_timeline = Inr example_timeline"
    by (simp_all add: first_21_def example_values_def example_timeline_def)
  from example_traces example_series_traces obtain a1 a2 a3 a5 a6 a7 a8 a9 where
    "lios_trace example_phenometrics = Inr a1"
    "band_trace example_cube example_timeline example_values = Inr a2"
    "smooth_trace example_cube example_timeline (PList [PFloat (25378 / 3), PFloat (22138 / 3),
       PFloat (19306 / 3), PFloat (26063 / 6)]) = Inr a3"
    "aos_trace example_phenometrics = Inr a5"
    "marker_trace ''SOS'' ''sos_t'' ''sos_v'' example_phenometrics = Inr a6"
    "marker_trace ''POS'' ''pos_t'' ''pos_v'' example_phenometrics = Inr a7"
    "marker_trace ''EOS'' ''eos_t'' ''eos_v'' example_phenometrics = Inr a8"
    "marker_trace ''VOS'' ''vos_t'' ''vos_v'' example_phenometrics = Inr a9"
    by metis
  then show ?thesis
    by (simp add: plot_advanced_phenometrics_def example_region_result_def example_smoothed
        example_window v t example_days uncertainty_band_def add_days_def)
qed

lemma example_timeline_parsed:
  "and_then (py_iter example_timeline) (parse_timeline example_calendar) =
     Inr [PDate 737792, PDate 737881, PDate 737984, PDate 738144]"
  by (simp add: py_iter_def example_timeline_def date_of_def strptime_def example_calendar_def)

lemma example_values_simps:
  "getitem example_phenometrics ''sos_v'' = Inr (PFloat 7649)"
  "getitem example_phenometrics ''pos_v'' = Inr (PFloat 9000)"
  "getitem example_phenometrics ''eos_v'' = Inr (PFloat 5489)"
  "\<exists>v. getitem example_phenometrics ''vos_v'' = Inr v"
  "getitem example_phenometrics ''sos_t'' = Inr (PStr ''2021-01-02T00:00:00'')"
  "getitem example_phenometrics ''pos_t'' = Inr (PStr ''2021-04-01T00:00:00'')"
  "getitem example_phenometrics ''eos_t'' = Inr (PStr ''2021-07-13T00:00:00'')"
  by (simp_all add: example_phenometrics_def)

lemma example_same_length:
  "same_length [PDate 737792, PDate 737881, PDate 737984, PDate 738144] example_values = Inr ()"
  "same_length [PDate 737792, PDate 737881, PDate 737984, PDate 738144]
     (PList [PFloat (25378 / 3), PFloat (22138 / 3), PFloat (19306 / 3), PFloat (26063 / 6)]) = Inr ()"
  by (simp_all add: same_length_def example_values_def)

lemma example_title:
  "format_title example_repr before after example_attr = Inr (before @ ''S2-16D-2 (NDVI)'' @ after)"
  by (simp add: format_title_def py_iter_def example_attr_def py_str_def)

lemma example_band: "\<exists>b. getitem example_cube ''band'' = Inr b"
  by (simp add: example_cube_def cube_query_def)

lemma example_matplotlib:
  "\<exists>fig. plot_phenometrics_matplotlib example_repr example_calendar example_cube
            example_point_result example_attr = Inr fig"
proof -
  have tl: "py_iter example_timeline = Inr stamps \<Longrightarrow>
      parse_timeline example_calendar stamps =
        Inr [PDate 737792, PDate 737881, PDate 737984, PDate 738144]" for stamps
    using example_timeline_parsed by simp
  obtain stamps where stamps: "py_iter example_timeline = Inr stamps"
    by (simp add: py_iter_def example_timeline_def)
  obtain vv where vv: "getitem example_phenometrics ''vos_v'' = Inr vv"
    using example_values_simps(4) by blast
  obtain b where b: "getitem example_cube ''band'' = Inr b" using example_band by blast
  show ?thesis
    by (simp add: plot_phenometrics_matplotlib_def example_point_result_def example_smoothed
        stamps tl [OF stamps] example_days example_values_simps(1-3) vv b example_title example_same_length)
qed

lemma example_seaborn:
  "\<exists>fig. plot_phenometrics_seaborn example_repr example_calendar example_cube
            example_point_result example_attr = Inr fig"
proof -
  have tl: "py_iter example_timeline = Inr stamps \<Longrightarrow>
      parse_timeline example_calendar stamps =
        Inr [PDate 737792, PDate 737881, PDate 737984, PDate 738144]" for stamps
    using example_timeline_parsed by simp
  obtain stamps where stamps: "py_iter example_timeline = Inr stamps"
    by (simp add: py_iter_def example_timeline_def)
  obtain vv where vv: "getitem example_phenometrics ''vos_v'' = Inr vv"
    using example_values_simps(4) by blast
  obtain b where b: "getitem example_cube ''band'' = Inr b" using example_band by blast
  show ?thesis
    by (simp add: plot_phenometrics_seaborn_def example_point_result_def example_smoothed
        stamps tl [OF stamps] example_days example_values_simps(1-3) vv b example_title example_same_length)
qed

lemma noon_plot_advanced:
  "\<exists>fig. plot_advanced_phenometrics example_calendar example_cube noon_region_result = Inr fig"
proof -
  have v: "first_21 example_values = Inr example_values"
    and t: "first_21 example_timeline = Inr example_timeline"
    by (simp_all add: first_21_def example_values_def example_timeline_def)
  from noon_traces example_series_traces obtain a1 a2 a3 a5 a6 a7 a8 a9 where
    "lios_trace noon_phenometrics = Inr a1"
    "band_trace example_cube example_timeline example_values = Inr a2"
    "smooth_trace example_cube example_timeline (PList [PFloat (25378 / 3), PFloat (22138 / 3),
       PFloat (19306 / 3), PFloat (26063 / 6)]) = Inr a3"
    "aos_trace noon_phenometrics = Inr a5"
    "marker_trace ''SOS'' ''sos_t'' ''sos_v'' noon_phenometrics = Inr a6"
    "marker_trace ''POS'' ''pos_t'' ''pos_v'' noon_phenometrics = Inr a7"
    "marker_trace ''EOS'' ''eos_t'' ''eos_v'' noon_phenometrics = Inr a8"
    "marker_trace ''VOS'' ''vos_t'' ''vos_v'' noon_phenometrics = Inr a9"
    by metis
  then show ?thesis
    by (simp add: plot_advanced_phenometrics_def noon_region_result_def example_smoothed
        example_window v t noon_days uncertainty_band_def add_days_def)
qed

subsection \<open>The loaded module\<close>

lemma loaded_plot_points_region: "loaded ''plot_points_region'' = Some (Defined 643)"
  by (simp add: loaded_def module_statements_def)

lemma loaded_px: "loaded ''px'' = None"
  by (simp add: loaded_def module_statements_def)

lemma loaded_gpd: "loaded ''gpd'' = Some Imported"
  by (simp add: loaded_def module_statements_def)

lemma loaded_never_563: "loaded n \<noteq> Some (Defined 563)"
  by (simp add: loaded_def module_statements_def)

lemma global_px: "global_name loaded ''px'' = Inl (NameError ''px'')"
  by (simp add: global_name_def loaded_px)

lemma example_region_prefix:
  "and_then (py_iter example_region_phenos) (\<lambda>ps.
     and_then (region_points [] [] ps) (\<lambda>xy.
     and_then (global_name loaded ''gpd'') (\<lambda>gpd.
     and_then (getitem example_polygon ''geometry'') (\<lambda>geometry.
     and_then (geo_series lib geometry) (\<lambda>df. k xy df))))) =
   k ([PFloat (- 55.95), PFloat (- 55.94)], [PFloat (- 29.2), PFloat (- 29.2)])
     (PList [PGeom [(- 55.96, - 29.21), (- 55.94, - 29.21), (- 55.94, - 29.19), (- 55.96, - 29.21)]])"
  by (simp add: example_region_phenos_def example_polygon_def py_iter_def getindex_def
      global_name_def loaded_gpd geo_series_def geometries_def is_geometry_def)

lemma example_plot_points_region:
  "\<exists>shown. plot_points_region_643 lib loaded example_polygon example_region_phenos = Inr shown"
  by (simp add: plot_points_region_643_def example_region_prefix series_plot_def axes_scatter_def
      geometries_def is_geometry_def is_float_def)

section \<open>Claims\<close>

text \<open>
  C1 (the code differs): a non-2xx response should surface an HTTPError before any
  DecodeError. No operation looks at the status code: a response with status 500
  and a body that is not JSON ends every operation with the JSONDecodeError of
  \<^verbatim>\<open>data.json()\<close>, and a response with status 404 and a JSON body that has the
  field is returned as a success.
\<close>

theorem non_2xx_status_is_not_checked:
  "fst (get_phenometrics example_repr ''http://host'' example_cube example_latitude example_longitude
      (example_world \<lparr>status_code = 500, resp_json = None\<rparr>)) = Inl JSONDecodeError \<and>
   fst (get_collections ''http://host''
      (example_world \<lparr>status_code = 500, resp_json = None\<rparr>)) = Inl JSONDecodeError \<and>
   fst (get_description example_repr ''http://host''
      (example_world \<lparr>status_code = 500, resp_json = None\<rparr>)) = Inl JSONDecodeError \<and>
   fst (get_timeseries_region ''http://host'' example_cube PNone
      (example_world \<lparr>status_code = 500, resp_json = None\<rparr>)) = Inl JSONDecodeError \<and>
   fst (get_phenometrics_region ''http://host'' example_cube (PList [])
      (example_world \<lparr>status_code = 500, resp_json = None\<rparr>)) = Inl JSONDecodeError \<and>
   fst (get_collections ''http://host''
      (example_world \<lparr>status_code = 404,
         resp_json = Some (PDict [(''coverages'', PList [PStr ''S2-16D-2''])])\<rparr>))
     = Inr (PList [PStr ''S2-16D-2''])"
  by (simp add: get_phenometrics_def get_collections_def get_description_def
      get_timeseries_region_def get_phenometrics_region_def phenometrics_query_def
      region_body_def example_cube_def cube_query_def example_world_def answering_def
      requests_get_def requests_post_def response_json_def Let_def)

text \<open>
  C2 (amended): for a cube with the keys collection, band, start_date, end_date and
  freq, and any latitude and longitude, \<^verbatim>\<open>get_phenometrics\<close> issues one GET
  request whose query string holds exactly the seven parameters collection, band,
  start_date, end_date, freq, latitude, longitude, in this order, and no others.
\<close>

theorem get_phenometrics_query_string:
  assumes "map_of kvs ''collection'' = Some c" and "map_of kvs ''band'' = Some b"
    and "map_of kvs ''start_date'' = Some s" and "map_of kvs ''end_date'' = Some e"
    and "map_of kvs ''freq'' = Some f"
    and "qs = urlencode py_repr
                  [(''collection'', c), (''band'', b), (''start_date'', s), (''end_date'', e),
                   (''freq'', f), (''latitude'', latitude), (''longitude'', longitude)]"
  shows "issued (snd (get_phenometrics py_repr url (PDict kvs) latitude longitude w)) =
           issued w @ [\<lparr>req_method = GET, req_url = url @ ''/phenometrics?'' @ qs, req_json = None\<rparr>] \<and>
         param_names qs = [''collection'', ''band'', ''start_date'', ''end_date'', ''freq'',
                           ''latitude'', ''longitude''] \<and>
         length (param_names qs) = 7"
proof -
  have "param_names qs = [''collection'', ''band'', ''start_date'', ''end_date'', ''freq'',
                           ''latitude'', ''longitude'']"
    unfolding assms(6) by (simp add: param_names_urlencode quote_plus_names)
  moreover have "issued (snd (get_phenometrics py_repr url (PDict kvs) latitude longitude w)) =
           issued w @ [\<lparr>req_method = GET, req_url = url @ ''/phenometrics?'' @ qs, req_json = None\<rparr>]"
    using assms
    by (simp add: get_phenometrics_def phenometrics_query_cube requests_get_def Let_def)
  ultimately show ?thesis by simp
qed

theorem get_phenometrics_query_string_witness:
  "issued (snd (get_phenometrics example_repr ''http://host'' example_cube example_latitude
      example_longitude (example_world \<lparr>status_code = 200, resp_json = None\<rparr>))) =
     [\<lparr>req_method = GET, req_url = ''http://host/phenometrics?'' @ example_query_string,
       req_json = None\<rparr>] \<and>
   param_names example_query_string =
     [''collection'', ''band'', ''start_date'', ''end_date'', ''freq'', ''latitude'', ''longitude'']"
  using get_phenometrics_query_string
    [of "[(''collection'', PStr ''S2-16D-2''), (''band'', PStr ''NDVI''),
          (''start_date'', PStr ''2021-01-01''), (''end_date'', PStr ''2021-12-31''),
          (''freq'', PStr ''16D'')]"
        "PStr ''S2-16D-2''" "PStr ''NDVI''" "PStr ''2021-01-01''" "PStr ''2021-12-31''" "PStr ''16D''"
        example_query_string example_repr example_latitude example_longitude "''http://host''"
        "example_world \<lparr>status_code = 200, resp_json = None\<rparr>"]
  by (simp add: example_urlencode example_cube_def cube_query_def example_world_def)

text \<open>C2 as stated counts six parameters; the query string of the docstring
  example has seven.\<close>

theorem six_parameters_counterexample:
  "issued (snd (get_phenometrics example_repr ''http://host'' example_cube example_latitude
      example_longitude (example_world \<lparr>status_code = 200, resp_json = None\<rparr>))) =
     [\<lparr>req_method = GET, req_url = ''http://host/phenometrics?'' @ example_query_string,
       req_json = None\<rparr>] \<and>
   length (param_names example_query_string) = 7 \<and>
   length (param_names example_query_string) \<noteq> 6"
proof -
  have "issued (snd (get_phenometrics example_repr ''http://host'' example_cube example_latitude
      example_longitude (example_world \<lparr>status_code = 200, resp_json = None\<rparr>))) =
     [\<lparr>req_method = GET, req_url = ''http://host/phenometrics?'' @ example_query_string,
       req_json = None\<rparr>]"
    by (simp add: get_phenometrics_def phenometrics_query_def example_cube_def cube_query_def
        example_world_def requests_get_def Let_def example_urlencode)
  moreover have "length (param_names example_query_string) = 7"
    by (simp add: param_names_def example_query_string_def)
  ultimately show ?thesis by simp
qed

text \<open>
  C3: when the cube has its five keys and the body of the server's response is a
  JSON object with a \<^verbatim>\<open>result\<close> field, \<^verbatim>\<open>get_phenometrics\<close> returns exactly
  that field's value; in particular a returned record whose \<^verbatim>\<open>sos_v\<close> is 7649.0
  is read back with \<^verbatim>\<open>sos_v == 7649.0\<close>.
\<close>

theorem get_phenometrics_returns_result:
  assumes "map_of kvs ''collection'' = Some c" and "map_of kvs ''band'' = Some b"
    and "map_of kvs ''start_date'' = Some s" and "map_of kvs ''end_date'' = Some e"
    and "map_of kvs ''freq'' = Some f"
    and "net w \<lparr>req_method = GET,
                req_url = url @ ''/phenometrics?'' @ urlencode py_repr
                  [(''collection'', c), (''band'', b), (''start_date'', s), (''end_date'', e),
                   (''freq'', f), (''latitude'', latitude), (''longitude'', longitude)],
                req_json = None\<rparr> = Inr resp"
    and "resp_json resp = Some (PDict body)" and "map_of body ''result'' = Some v"
  shows "fst (get_phenometrics py_repr url (PDict kvs) latitude longitude w) = Inr v \<and>
         (\<forall>fields. v = PDict fields \<and> map_of fields ''sos_v'' = Some (PFloat 7649) \<longrightarrow>
            and_then (fst (get_phenometrics py_repr url (PDict kvs) latitude longitude w))
              (\<lambda>record. getitem record ''sos_v'') = Inr (PFloat 7649))"
proof -
  have "fst (get_phenometrics py_repr url (PDict kvs) latitude longitude w) = Inr v"
    using assms
    by (simp add: get_phenometrics_def phenometrics_query_cube requests_get_def Let_def
        response_json_def)
  then show ?thesis by simp
qed

theorem get_phenometrics_returns_result_witness:
  "fst (get_phenometrics example_repr ''http://host'' example_cube example_latitude example_longitude
     (example_world \<lparr>status_code = 200,
         resp_json = Some (PDict [(''result'', example_phenometrics)])\<rparr>))
   = Inr example_phenometrics \<and>
   and_then (fst (get_phenometrics example_repr ''http://host'' example_cube example_latitude example_longitude
       (example_world \<lparr>status_code = 200,
           resp_json = Some (PDict [(''result'', example_phenometrics)])\<rparr>)))
     (\<lambda>record. getitem record ''sos_v'') = Inr (PFloat 7649)"
  using get_phenometrics_returns_result
    [of "[(''collection'', PStr ''S2-16D-2''), (''band'', PStr ''NDVI''),
          (''start_date'', PStr ''2021-01-01''), (''end_date'', PStr ''2021-12-31''),
          (''freq'', PStr ''16D'')]"
        "PStr ''S2-16D-2''" "PStr ''NDVI''" "PStr ''2021-01-01''" "PStr ''2021-12-31''" "PStr ''16D''"
        "example_world \<lparr>status_code = 200,
            resp_json = Some (PDict [(''result'', example_phenometrics)])\<rparr>"
        "''http://host''" example_repr example_latitude example_longitude
        "\<lparr>status_code = 200, resp_json = Some (PDict [(''result'', example_phenometrics)])\<rparr>"
        "[(''result'', example_phenometrics)]" example_phenometrics]
  by (simp add: example_cube_def cube_query_def example_world_def answering_def
      example_phenometrics_def)

text \<open>
  C4: for every series of at least three values, \<^verbatim>\<open>smooth_timeseries\<close> with method
  \<^verbatim>\<open>'savitsky'\<close>, window length 3 and order 1 returns a series of the same length;
  for every series of fewer than three values it fails, with the filter's ValueError.
\<close>

theorem smooth_timeseries_length:
  "(3 \<le> length ts \<longrightarrow>
      (\<exists>ys. smooth_timeseries ts ''savitsky'' 3 1 = Inr ys \<and> length ys = length ts)) \<and>
   (length ts < 3 \<longrightarrow> smooth_timeseries ts ''savitsky'' 3 1 = Inl ValueError)"
  by (simp add: smooth_timeseries_def savgol_filter_def Let_def)

theorem smooth_timeseries_length_witness:
  "smooth_timeseries [1, 2, 4] ''savitsky'' 3 1 = Inr [5 / 6, 7 / 3, 23 / 6] \<and>
   length [5 / 6, 7 / 3, 23 / 6 :: real] = length [1, 2, 4 :: real] \<and>
   smooth_timeseries [1, 2] ''savitsky'' 3 1 = Inl ValueError"
proof -
  have "[0..<3] = [0, 1, 2]" by (simp add: upt_rec)
  then have "smooth_timeseries [1, 2, 4] ''savitsky'' 3 1 = Inr [5 / 6, 7 / 3, 23 / 6]"
    by (simp add: smooth_timeseries_def savgol_filter_def Let_def)
  then show ?thesis
    using smooth_timeseries_length [of "[1, 2, 4]"] smooth_timeseries_length [of "[1, 2]"]
    by simp
qed

text \<open>
  C6 (amended): for every phenometrics record with the timestamps \<^verbatim>\<open>sos_t\<close>,
  \<^verbatim>\<open>pos_t\<close>, \<^verbatim>\<open>eos_t\<close> and the values \<^verbatim>\<open>sos_v\<close>, \<^verbatim>\<open>pos_v\<close>, \<^verbatim>\<open>eos_v\<close>, every
  figure a chart builder shows has exactly one filled polygon, the LIOS one, and it is
  the 5-vertex path (d(sos_t), 0), (d(sos_t), sos_v), (d(pos_t), pos_v),
  (d(eos_t), eos_v), (d(eos_t), 0), where d(t) is the date part of the timestamp t:
  its text before the first \<^verbatim>\<open>T\<close> in the plotly builders, the day that
  \<^verbatim>\<open>strptime\<close> reads from that text in the matplotlib and seaborn builders. The
  path has 5 vertices and its first and last vertices have y = 0.
\<close>

theorem lios_fill_polygon:
  assumes "getitem ds_phenos ''phenometrics'' = Inr ph"
    and "getitem ph ''sos_t'' = Inr (PStr sos_t)" and "getitem ph ''sos_v'' = Inr sos_v"
    and "getitem ph ''pos_t'' = Inr (PStr pos_t)" and "getitem ph ''pos_v'' = Inr pos_v"
    and "getitem ph ''eos_t'' = Inr (PStr eos_t)" and "getitem ph ''eos_v'' = Inr eos_v"
  shows "(plot_phenometrics calendar cube ds_phenos = Inr fig \<longrightarrow>
            fill_polygons fig = [lios_path (PStr (date_of sos_t)) sos_v (PStr (date_of pos_t)) pos_v
                                   (PStr (date_of eos_t)) eos_v]) \<and>
         (plot_advanced_phenometrics calendar cube ds_phenos = Inr fig \<longrightarrow>
            fill_polygons fig = [lios_path (PStr (date_of sos_t)) sos_v (PStr (date_of pos_t)) pos_v
                                   (PStr (date_of eos_t)) eos_v]) \<and>
         (plot_phenometrics_matplotlib py_repr calendar cube ds_phenos attr = Inr fig \<longrightarrow>
            (\<exists>s p e. calendar (date_of sos_t) = Some s \<and> calendar (date_of pos_t) = Some p \<and>
               calendar (date_of eos_t) = Some e \<and>
               fill_polygons fig = [lios_path (PDate s) sos_v (PDate p) pos_v (PDate e) eos_v])) \<and>
         (plot_phenometrics_seaborn py_repr calendar cube ds_phenos attr = Inr fig \<longrightarrow>
            (\<exists>s p e. calendar (date_of sos_t) = Some s \<and> calendar (date_of pos_t) = Some p \<and>
               calendar (date_of eos_t) = Some e \<and>
               fill_polygons fig = [lios_path (PDate s) sos_v (PDate p) pos_v (PDate e) eos_v])) \<and>
         length (lios_path t1 v1 t2 v2 t3 v3) = 5 \<and>
         snd (hd (lios_path t1 v1 t2 v2 t3 v3)) = PInt 0 \<and>
         snd (last (lios_path t1 v1 t2 v2 t3 v3)) = PInt 0"
proof (intro conjI impI)
  show "length (lios_path t1 v1 t2 v2 t3 v3) = 5" "snd (hd (lios_path t1 v1 t2 v2 t3 v3)) = PInt 0"
    "snd (last (lios_path t1 v1 t2 v2 t3 v3)) = PInt 0"
    by (simp_all add: lios_path_def)
qed (rule plot_phenometrics_polygon [OF assms] plot_advanced_polygon [OF assms]
      matplotlib_polygon [OF assms] seaborn_polygon [OF assms], assumption)+

theorem lios_fill_polygon_witness:
  "(\<exists>fig. plot_phenometrics example_calendar example_cube example_point_result = Inr fig \<and>
      fill_polygons fig = [lios_path (PStr ''2021-01-02'') (PFloat 7649) (PStr ''2021-04-01'')
                             (PFloat 9000) (PStr ''2021-07-13'') (PFloat 5489)]) \<and>
   (\<exists>fig. plot_advanced_phenometrics example_calendar example_cube example_region_result = Inr fig \<and>
      fill_polygons fig = [lios_path (PStr ''2021-01-02'') (PFloat 7649) (PStr ''2021-04-01'')
                             (PFloat 9000) (PStr ''2021-07-13'') (PFloat 5489)]) \<and>
   (\<exists>fig. plot_phenometrics_matplotlib example_repr example_calendar example_cube
            example_point_result example_attr = Inr fig \<and>
      fill_polygons fig = [lios_path (PDate 737792) (PFloat 7649) (PDate 737881)
                             (PFloat 9000) (PDate 737984) (PFloat 5489)]) \<and>
   (\<exists>fig. plot_phenometrics_seaborn example_repr example_calendar example_cube
            example_point_result example_attr = Inr fig \<and>
      fill_polygons fig = [lios_path (PDate 737792) (PFloat 7649) (PDate 737881)
                             (PFloat 9000) (PDate 737984) (PFloat 5489)])"
proof -
  have point: "getitem example_point_result ''phenometrics'' = Inr example_phenometrics"
    and region: "getitem example_region_result ''phenometrics'' = Inr example_phenometrics"
    by (simp_all add: example_point_result_def example_region_result_def)
  have dates: "date_of ''2021-01-02T00:00:00'' = ''2021-01-02''"
    "date_of ''2021-04-01T00:00:00'' = ''2021-04-01''"
    "date_of ''2021-07-13T00:00:00'' = ''2021-07-13''"
    by (simp_all add: date_of_def)
  have days: "example_calendar ''2021-01-02'' = Some 737792"
    "example_calendar ''2021-04-01'' = Some 737881" "example_calendar ''2021-07-13'' = Some 737984"
    by (simp_all add: example_calendar_def)
  note p = lios_fill_polygon [OF point example_values_simps(5) example_values_simps(1)
      example_values_simps(6) example_values_simps(2) example_values_simps(7)
      example_values_simps(3), unfolded dates]
  note r = lios_fill_polygon [OF region example_values_simps(5) example_values_simps(1)
      example_values_simps(6) example_values_simps(2) example_values_simps(7)
      example_values_simps(3), unfolded dates]
  from example_plot_phenometrics obtain f1 where
    f1: "plot_phenometrics example_calendar example_cube example_point_result = Inr f1" by blast
  from example_plot_advanced obtain f2 where
    f2: "plot_advanced_phenometrics example_calendar example_cube example_region_result = Inr f2"
    by blast
  from example_matplotlib obtain f3 where
    f3: "plot_phenometrics_matplotlib example_repr example_calendar example_cube
            example_point_result example_attr = Inr f3" by blast
  from example_seaborn obtain f4 where
    f4: "plot_phenometrics_seaborn example_repr example_calendar example_cube
            example_point_result example_attr = Inr f4" by blast
  from p [of example_calendar example_cube f1] f1 have "fill_polygons f1 =
      [lios_path (PStr ''2021-01-02'') (PFloat 7649) (PStr ''2021-04-01'')
         (PFloat 9000) (PStr ''2021-07-13'') (PFloat 5489)]" by blast
  moreover from r [of example_calendar example_cube f2] f2 have "fill_polygons f2 =
      [lios_path (PStr ''2021-01-02'') (PFloat 7649) (PStr ''2021-04-01'')
         (PFloat 9000) (PStr ''2021-07-13'') (PFloat 5489)]" by blast
  moreover from p [of example_calendar example_cube f3 example_repr example_attr] f3 days
  have "fill_polygons f3 =
      [lios_path (PDate 737792) (PFloat 7649) (PDate 737881)
                             (PFloat 9000) (PDate 737984) (PFloat 5489)]" by auto
  moreover from p [of example_calendar example_cube f4 example_repr example_attr] f4 days
  have "fill_polygons f4 =
      [lios_path (PDate 737792) (PFloat 7649) (PDate 737881)
                             (PFloat 9000) (PDate 737984) (PFloat 5489)]" by auto
  ultimately show ?thesis using f1 f2 f3 f4 by blast
qed

text \<open>C6 as stated puts the vertices at the timestamps themselves; a season
  that starts at noon is drawn from midnight of that day.\<close>

theorem lios_polygon_counterexample:
  "getitem noon_point_result ''phenometrics'' = Inr noon_phenometrics \<and>
   getitem noon_phenometrics ''sos_t'' = Inr (PStr ''2021-01-02T12:00:00'') \<and>
   getitem noon_phenometrics ''pos_t'' = Inr (PStr ''2021-04-01T00:00:00'') \<and>
   getitem noon_phenometrics ''eos_t'' = Inr (PStr ''2021-07-13T00:00:00'') \<and>
   (\<exists>fig. plot_phenometrics example_calendar example_cube noon_point_result = Inr fig \<and>
      fill_polygons fig = [lios_path (PStr ''2021-01-02'') (PFloat 7649) (PStr ''2021-04-01'')
                             (PFloat 9000) (PStr ''2021-07-13'') (PFloat 5489)] \<and>
      fill_polygons fig \<noteq> [lios_path (PStr ''2021-01-02T12:00:00'') (PFloat 7649)
                             (PStr ''2021-04-01T00:00:00'') (PFloat 9000)
                             (PStr ''2021-07-13T00:00:00'') (PFloat 5489)])"
proof -
  have point: "getitem noon_point_result ''phenometrics'' = Inr noon_phenometrics"
    by (simp add: noon_point_result_def)
  have fields: "getitem noon_phenometrics ''sos_t'' = Inr (PStr ''2021-01-02T12:00:00'')"
    "getitem noon_phenometrics ''sos_v'' = Inr (PFloat 7649)"
    "getitem noon_phenometrics ''pos_t'' = Inr (PStr ''2021-04-01T00:00:00'')"
    "getitem noon_phenometrics ''pos_v'' = Inr (PFloat 9000)"
    "getitem noon_phenometrics ''eos_t'' = Inr (PStr ''2021-07-13T00:00:00'')"
    "getitem noon_phenometrics ''eos_v'' = Inr (PFloat 5489)"
    by (simp_all add: noon_phenometrics_def)
  have dates: "date_of ''2021-01-02T12:00:00'' = ''2021-01-02''"
    "date_of ''2021-04-01T00:00:00'' = ''2021-04-01''"
    "date_of ''2021-07-13T00:00:00'' = ''2021-07-13''"
    by (simp_all add: date_of_def)
  from noon_plot_phenometrics obtain fig where
    fig: "plot_phenometrics example_calendar example_cube noon_point_result = Inr fig" by blast
  from plot_phenometrics_polygon [OF point fields fig]
  have poly: "fill_polygons fig = [lios_path (PStr ''2021-01-02'') (PFloat 7649) (PStr ''2021-04-01'')
                             (PFloat 9000) (PStr ''2021-07-13'') (PFloat 5489)]"
    unfolding dates .
  then have "fill_polygons fig \<noteq> [lios_path (PStr ''2021-01-02T12:00:00'') (PFloat 7649)
                             (PStr ''2021-04-01T00:00:00'') (PFloat 9000)
                             (PStr ''2021-07-13T00:00:00'') (PFloat 5489)]"
    by (simp add: lios_path_def)
  with point fields fig poly show ?thesis by blast
qed

text \<open>
  C7 (amended): of the chart builders only \<^verbatim>\<open>plot_advanced_phenometrics\<close> adds
  vertical bands. Every figure it shows has exactly two, each 32 days wide, from 16
  days before to 16 days after the day d(t) that \<^verbatim>\<open>strptime\<close> reads from the date
  part of the timestamp t (its text before the first \<^verbatim>\<open>T\<close>), one for \<^verbatim>\<open>sos_t\<close>
  and one for \<^verbatim>\<open>eos_t\<close>; the figures of \<^verbatim>\<open>plot_phenometrics\<close>,
  \<^verbatim>\<open>plot_phenometrics_matplotlib\<close> and \<^verbatim>\<open>plot_phenometrics_seaborn\<close> have none.
\<close>

theorem uncertainty_bands:
  "(plot_advanced_phenometrics calendar cube ds_phenos = Inr fig \<longrightarrow>
      (\<exists>ph sos_t eos_t s e.
           getitem ds_phenos ''phenometrics'' = Inr ph \<and>
           getitem ph ''sos_t'' = Inr (PStr sos_t) \<and> getitem ph ''eos_t'' = Inr (PStr eos_t) \<and>
           calendar (date_of sos_t) = Some s \<and> calendar (date_of eos_t) = Some e \<and>
           vrects fig = [(s - 16, s + 16), (e - 16, e + 16)]) \<and>
      length (vrects fig) = 2 \<and> list_all (\<lambda>band. snd band - fst band = 32) (vrects fig)) \<and>
   (plot_phenometrics calendar cube ds_phenos = Inr fig \<longrightarrow> vrects fig = []) \<and>
   (plot_phenometrics_matplotlib py_repr calendar cube ds_phenos attr = Inr fig \<longrightarrow>
      vrects fig = []) \<and>
   (plot_phenometrics_seaborn py_repr calendar cube ds_phenos attr = Inr fig \<longrightarrow>
      vrects fig = [])"
proof (intro conjI impI)
  assume a: "plot_advanced_phenometrics calendar cube ds_phenos = Inr fig"
  from plot_advanced_bands [OF a]
  show b: "\<exists>ph sos_t eos_t s e.
           getitem ds_phenos ''phenometrics'' = Inr ph \<and>
           getitem ph ''sos_t'' = Inr (PStr sos_t) \<and> getitem ph ''eos_t'' = Inr (PStr eos_t) \<and>
           calendar (date_of sos_t) = Some s \<and> calendar (date_of eos_t) = Some e \<and>
           vrects fig = [(s - 16, s + 16), (e - 16, e + 16)]" .
  then obtain s e where v: "vrects fig = [(s - 16, s + 16), (e - 16, e + 16)]" by blast
  then show "length (vrects fig) = 2" by simp
  from v show "list_all (\<lambda>band. snd band - fst band = 32) (vrects fig)" by simp
qed (rule plot_phenometrics_no_bands matplotlib_no_bands seaborn_no_bands, assumption)+

theorem uncertainty_bands_witness:
  "(\<exists>fig. plot_advanced_phenometrics example_calendar example_cube example_region_result = Inr fig \<and>
      vrects fig = [(737776, 737808), (737968, 738000)]) \<and>
   (\<exists>fig. plot_phenometrics example_calendar example_cube example_point_result = Inr fig \<and>
      vrects fig = []) \<and>
   (\<exists>fig. plot_phenometrics_matplotlib example_repr example_calendar example_cube
            example_point_result example_attr = Inr fig \<and> vrects fig = []) \<and>
   (\<exists>fig. plot_phenometrics_seaborn example_repr example_calendar example_cube
            example_point_result example_attr = Inr fig \<and> vrects fig = [])"
proof -
  from example_plot_phenometrics obtain f1 where
    f1: "plot_phenometrics example_calendar example_cube example_point_result = Inr f1" by blast
  from example_plot_advanced obtain f2 where
    f2: "plot_advanced_phenometrics example_calendar example_cube example_region_result = Inr f2"
    by blast
  from example_matplotlib obtain f3 where
    f3: "plot_phenometrics_matplotlib example_repr example_calendar example_cube
            example_point_result example_attr = Inr f3" by blast
  from example_seaborn obtain f4 where
    f4: "plot_phenometrics_seaborn example_repr example_calendar example_cube
            example_point_result example_attr = Inr f4" by blast
  have region: "getitem example_region_result ''phenometrics'' = Inr example_phenometrics"
    by (simp add: example_region_result_def)
  have days: "example_calendar (date_of ''2021-01-02T00:00:00'') = Some 737792"
    "example_calendar (date_of ''2021-07-13T00:00:00'') = Some 737984"
    by (simp_all add: example_calendar_def date_of_def)
  from uncertainty_bands [of example_calendar example_cube example_region_result f2] f2
  obtain ph sos_t eos_t s e where b:
    "getitem example_region_result ''phenometrics'' = Inr ph"
    "getitem ph ''sos_t'' = Inr (PStr sos_t)" "getitem ph ''eos_t'' = Inr (PStr eos_t)"
    "example_calendar (date_of sos_t) = Some s" "example_calendar (date_of eos_t) = Some e"
    "vrects f2 = [(s - 16, s + 16), (e - 16, e + 16)]"
    by blast
  from b(1) region have "ph = example_phenometrics" by simp
  with b(2,3) example_values_simps(5,7) have "sos_t = ''2021-01-02T00:00:00''"
    "eos_t = ''2021-07-13T00:00:00''" by simp_all
  with b(4,5) days have "s = 737792" "e = 737984" by simp_all
  with b(6) have "vrects f2 = [(737776, 737808), (737968, 738000)]" by simp
  moreover from uncertainty_bands [of example_calendar example_cube example_point_result f1] f1
  have "vrects f1 = []" by blast
  moreover from uncertainty_bands [of example_calendar example_cube example_point_result f3
      example_repr example_attr] f3
  have "vrects f3 = []" by blast
  moreover from uncertainty_bands [of example_calendar example_cube example_point_result f4
      example_repr example_attr] f4
  have "vrects f4 = []" by blast
  ultimately show ?thesis using f1 f2 f3 f4 by blast
qed

text \<open>C7 as stated centres the bands on the timestamps themselves; for a
  season that starts at noon of 2021-01-02 the first band runs from day 737776 to day
  737808, centred on midnight of that day (day 737792).\<close>

theorem band_centre_counterexample:
  "getitem noon_region_result ''phenometrics'' = Inr noon_phenometrics \<and>
   getitem noon_phenometrics ''sos_t'' = Inr (PStr ''2021-01-02T12:00:00'') \<and>
   example_calendar ''2021-01-02'' = Some 737792 \<and>
   (\<exists>fig. plot_advanced_phenometrics example_calendar example_cube noon_region_result = Inr fig \<and>
      vrects fig = [(737776, 737808), (737968, 738000)] \<and>
      fst (hd (vrects fig)) + snd (hd (vrects fig)) = 2 * 737792)"
proof -
  have region: "getitem noon_region_result ''phenometrics'' = Inr noon_phenometrics"
    by (simp add: noon_region_result_def)
  have fields: "getitem noon_phenometrics ''sos_t'' = Inr (PStr ''2021-01-02T12:00:00'')"
    "getitem noon_phenometrics ''eos_t'' = Inr (PStr ''2021-07-13T00:00:00'')"
    by (simp_all add: noon_phenometrics_def)
  have days: "example_calendar (date_of ''2021-01-02T12:00:00'') = Some 737792"
    "example_calendar (date_of ''2021-07-13T00:00:00'') = Some 737984"
    "example_calendar ''2021-01-02'' = Some 737792"
    by (simp_all add: example_calendar_def date_of_def)
  from noon_plot_advanced obtain fig where
    fig: "plot_advanced_phenometrics example_calendar example_cube noon_region_result = Inr fig"
    by blast
  from plot_advanced_bands [OF fig] obtain ph sos_t eos_t s e where b:
    "getitem noon_region_result ''phenometrics'' = Inr ph"
    "getitem ph ''sos_t'' = Inr (PStr sos_t)" "getitem ph ''eos_t'' = Inr (PStr eos_t)"
    "example_calendar (date_of sos_t) = Some s" "example_calendar (date_of eos_t) = Some e"
    "vrects fig = [(s - 16, s + 16), (e - 16, e + 16)]"
    by blast
  from b(1) region have "ph = noon_phenometrics" by simp
  with b(2,3) fields have "sos_t = ''2021-01-02T12:00:00''" "eos_t = ''2021-07-13T00:00:00''"
    by simp_all
  with b(4,5) days have "s = 737792" "e = 737984" by simp_all
  with b(6) have "vrects fig = [(737776, 737808), (737968, 738000)]" by simp
  with fig region fields(1) days(3) show ?thesis by auto
qed

text \<open>
  C8: \<^verbatim>\<open>get_collections\<close> and \<^verbatim>\<open>get_description\<close> each issue exactly one
  request, a GET with no body whose URL is the base URL followed by
  \<^verbatim>\<open>/list_collections\<close> and \<^verbatim>\<open>/describe\<close> and nothing else.
  \<^verbatim>\<open>get_collections\<close> returns a value exactly when the body is a JSON object with
  a \<^verbatim>\<open>coverages\<close> field, and the value is that field; whatever
  \<^verbatim>\<open>get_description\<close> returns is the \<^verbatim>\<open>description\<close> field, and it does return
  it when the field is a list of items that have the six keys with strings for Code,
  Name, Description and Method.
\<close>

theorem list_collections_and_describe:
  "issued (snd (get_collections url w)) =
     issued w @ [\<lparr>req_method = GET, req_url = url @ ''/list_collections'', req_json = None\<rparr>] \<and>
   issued (snd (get_description py_repr url w)) =
     issued w @ [\<lparr>req_method = GET, req_url = url @ ''/describe'', req_json = None\<rparr>] \<and>
   (fst (get_collections url w) = Inr v \<longleftrightarrow>
      (\<exists>resp body.
          net w \<lparr>req_method = GET, req_url = url @ ''/list_collections'', req_json = None\<rparr> = Inr resp \<and>
          resp_json resp = Some (PDict body) \<and> map_of body ''coverages'' = Some v)) \<and>
   (fst (get_description py_repr url w) = Inr v \<longrightarrow>
      (\<exists>resp body.
          net w \<lparr>req_method = GET, req_url = url @ ''/describe'', req_json = None\<rparr> = Inr resp \<and>
          resp_json resp = Some (PDict body) \<and> map_of body ''description'' = Some v)) \<and>
   (net w \<lparr>req_method = GET, req_url = url @ ''/describe'', req_json = None\<rparr> = Inr resp' \<and>
    resp_json resp' = Some (PDict body') \<and> map_of body' ''description'' = Some (PList items) \<and>
    (\<forall>item\<in>set items. item_ok item) \<longrightarrow>
      fst (get_description py_repr url w) = Inr (PList items))"
proof (intro conjI impI)
  show "issued (snd (get_collections url w)) =
     issued w @ [\<lparr>req_method = GET, req_url = url @ ''/list_collections'', req_json = None\<rparr>]"
    by (simp add: get_collections_def requests_get_def Let_def)
  show "issued (snd (get_description py_repr url w)) =
     issued w @ [\<lparr>req_method = GET, req_url = url @ ''/describe'', req_json = None\<rparr>]"
    by (simp add: get_description_def requests_get_def Let_def)
  have "fst (get_collections url w) =
     and_then (net w \<lparr>req_method = GET, req_url = url @ ''/list_collections'', req_json = None\<rparr>)
       (\<lambda>d. and_then (response_json d) (\<lambda>data_json. getitem data_json ''coverages''))"
    by (simp add: get_collections_def requests_get_def Let_def)
  then show "fst (get_collections url w) = Inr v \<longleftrightarrow>
      (\<exists>resp body.
          net w \<lparr>req_method = GET, req_url = url @ ''/list_collections'', req_json = None\<rparr> = Inr resp \<and>
          resp_json resp = Some (PDict body) \<and> map_of body ''coverages'' = Some v)"
    by (auto simp: and_then_eq_Inr getitem_eq_Inr response_json_def split: option.splits)
  show "\<exists>resp body.
          net w \<lparr>req_method = GET, req_url = url @ ''/describe'', req_json = None\<rparr> = Inr resp \<and>
          resp_json resp = Some (PDict body) \<and> map_of body ''description'' = Some v"
    if "fst (get_description py_repr url w) = Inr v"
    using that unfolding get_description_unfold
    by (auto simp: and_then_eq_Inr getitem_eq_Inr response_json_def split: option.splits)
  show "fst (get_description py_repr url w) = Inr (PList items)"
    if "net w \<lparr>req_method = GET, req_url = url @ ''/describe'', req_json = None\<rparr> = Inr resp' \<and>
      resp_json resp' = Some (PDict body') \<and> map_of body' ''description'' = Some (PList items) \<and>
      (\<forall>item\<in>set items. item_ok item)"
  proof -
    from that obtain table where "html_rows py_repr html_header items = Inr table"
      using html_rows_ok [of items py_repr html_header] by blast
    with that show ?thesis by (simp add: get_description_body)
  qed
qed

theorem list_collections_and_describe_witness:
  "issued (snd (get_collections ''http://host'' \<lparr>net = example_server, issued = []\<rparr>)) =
     [\<lparr>req_method = GET, req_url = ''http://host/list_collections'', req_json = None\<rparr>] \<and>
   issued (snd (get_description example_repr ''http://host'' \<lparr>net = example_server, issued = []\<rparr>)) =
     [\<lparr>req_method = GET, req_url = ''http://host/describe'', req_json = None\<rparr>] \<and>
   fst (get_collections ''http://host'' \<lparr>net = example_server, issued = []\<rparr>) =
     Inr (PList [PStr ''S2-16D-2'', PStr ''LANDSAT-16D-1'']) \<and>
   fst (get_description example_repr ''http://host'' \<lparr>net = example_server, issued = []\<rparr>) =
     Inr example_description"
  using list_collections_and_describe
    [of "''http://host''" "\<lparr>net = example_server, issued = []\<rparr>" example_repr
        "PList [PStr ''S2-16D-2'', PStr ''LANDSAT-16D-1'']"
        "\<lparr>status_code = 200, resp_json = Some (PDict [(''description'', example_description)])\<rparr>"
        "[(''description'', example_description)]"
        "[PDict [(''Code'', PStr ''SOS''), (''Name'', PStr ''Start of Season''),
            (''Description'', PStr ''Start of the growing season''),
            (''Method'', PStr ''seasonal_amplitude''), (''Value'', PBool True),
            (''Time'', PBool True)]]"]
    example_description_ok
  by (simp add: example_server_def example_description_def)

text \<open>
  C9: the module has two definitions named \<^verbatim>\<open>plot_points_region\<close>, at lines 563
  and 643. After the module is loaded the name is bound to the second, no name is
  bound to the first, and every call runs the second. The two are not equivalent: the
  first never shows a figure, and wherever the second shows one the first raises
  NameError for the global \<^verbatim>\<open>px\<close>, which no import binds; on the example region the
  second does show a figure.
\<close>

theorem plot_points_region_shadowed:
  "map snd (filter (\<lambda>s. fst s = ''plot_points_region'') module_statements) =
     [Defined 563, Defined 643] \<and>
   loaded ''plot_points_region'' = Some (Defined 643) \<and>
   (\<forall>n. loaded n \<noteq> Some (Defined 563)) \<and>
   call_plot_points_region lib loaded polygon phenos =
     plot_points_region_643 lib loaded polygon phenos \<and>
   (\<forall>shown. plot_points_region_563 lib loaded polygon phenos \<noteq> Inr shown) \<and>
   (plot_points_region_643 lib loaded polygon phenos = Inr fig \<longrightarrow>
      plot_points_region_563 lib loaded polygon phenos = Inl (NameError ''px'')) \<and>
   (\<exists>shown. plot_points_region_643 lib loaded example_polygon example_region_phenos = Inr shown) \<and>
   plot_points_region_563 lib loaded example_polygon example_region_phenos = Inl (NameError ''px'')"
proof (intro conjI impI)
  show "map snd (filter (\<lambda>s. fst s = ''plot_points_region'') module_statements) =
     [Defined 563, Defined 643]"
    by (simp add: module_statements_def)
  show "loaded ''plot_points_region'' = Some (Defined 643)"
    by (rule loaded_plot_points_region)
  show "\<forall>n. loaded n \<noteq> Some (Defined 563)"
    using loaded_never_563 by blast
  show "call_plot_points_region lib loaded polygon phenos =
     plot_points_region_643 lib loaded polygon phenos"
    by (simp add: call_plot_points_region_def global_name_def loaded_plot_points_region)
  show "\<forall>shown. plot_points_region_563 lib loaded polygon phenos \<noteq> Inr shown"
    by (auto simp: plot_points_region_563_def and_then_eq_Inr global_name_def loaded_px)
  show "plot_points_region_563 lib loaded polygon phenos = Inl (NameError ''px'')"
    if "plot_points_region_643 lib loaded polygon phenos = Inr fig"
    using that
    by (auto simp: plot_points_region_563_def plot_points_region_643_def and_then_eq_Inr
        global_name_def loaded_px)
  show "\<exists>shown. plot_points_region_643 lib loaded example_polygon example_region_phenos = Inr shown"
    by (simp add: example_plot_points_region)
  show "plot_points_region_563 lib loaded example_polygon example_region_phenos =
     Inl (NameError ''px'')"
    by (simp add: plot_points_region_563_def example_region_prefix global_px)
qed

theorem plot_points_region_shadowed_witness:
  "(\<exists>shown. plot_points_region_643 strict_library loaded example_polygon example_region_phenos
      = Inr shown) \<and>
   plot_points_region_563 strict_library loaded example_polygon example_region_phenos =
     Inl (NameError ''px'') \<and>
   plot_points_region_563 strict_library loaded example_polygon example_region_phenos \<noteq>
     plot_points_region_643 strict_library loaded example_polygon example_region_phenos \<and>
   call_plot_points_region strict_library loaded example_polygon example_region_phenos =
     plot_points_region_643 strict_library loaded example_polygon example_region_phenos"
proof -
  obtain shown where shown:
    "plot_points_region_643 strict_library loaded example_polygon example_region_phenos = Inr shown"
    using example_plot_points_region [of strict_library] by blast
  with plot_points_region_shadowed [of strict_library example_polygon example_region_phenos shown]
  show ?thesis by auto
qed

text \<open>
  C10 (amended): whatever \<^verbatim>\<open>get_description\<close> returns is exactly the
  \<^verbatim>\<open>description\<close> field of the JSON body, and its outcome does not depend on the
  text of the HTML table it builds (the rendering \<open>py_repr\<close> of the Value and Time
  cells is irrelevant). It fails whenever an item of the \<^verbatim>\<open>description\<close> list is
  a JSON object that lacks one of the keys Code, Name, Description, Method, Value, Time.
  The failure is a KeyError for one of these keys when every item of the list is a
  JSON object whose Code, Name, Description and Method values, where present, are
  strings; otherwise it is such a KeyError or a TypeError, raised earlier by an item
  that is not an object or by the concatenation of a value that is not a string.
\<close>

theorem get_description_table_failure:
  "(fst (get_description py_repr url w) = Inr v \<longrightarrow>
      (\<exists>resp body.
          net w \<lparr>req_method = GET, req_url = url @ ''/describe'', req_json = None\<rparr> = Inr resp \<and>
          resp_json resp = Some (PDict body) \<and> map_of body ''description'' = Some v)) \<and>
   fst (get_description py_repr url w) = fst (get_description py_repr' url w) \<and>
   (net w \<lparr>req_method = GET, req_url = url @ ''/describe'', req_json = None\<rparr> = Inr resp' \<and>
    resp_json resp' = Some (PDict body') \<and> map_of body' ''description'' = Some (PList items) \<and>
    (\<exists>item\<in>set items. lacks_key item) \<longrightarrow>
      (\<exists>e. fst (get_description py_repr url w) = Inl e \<and>
           (e = TypeError \<or> (\<exists>k\<in>set description_keys. e = KeyError k))) \<and>
      ((\<forall>item\<in>set items. object_with_string_texts item) \<longrightarrow>
         (\<exists>k\<in>set description_keys. fst (get_description py_repr url w) = Inl (KeyError k))))"
proof (intro conjI impI)
  show "\<exists>resp body.
          net w \<lparr>req_method = GET, req_url = url @ ''/describe'', req_json = None\<rparr> = Inr resp \<and>
          resp_json resp = Some (PDict body) \<and> map_of body ''description'' = Some v"
    if "fst (get_description py_repr url w) = Inr v"
    using that unfolding get_description_unfold
    by (auto simp: and_then_eq_Inr getitem_eq_Inr response_json_def split: option.splits)
  show "fst (get_description py_repr url w) = fst (get_description py_repr' url w)"
    unfolding get_description_unfold and_then_const [of "html_rows _ _ _"]
    using html_rows_repr [of py_repr html_header _ py_repr' html_header] by simp
next
  assume a: "net w \<lparr>req_method = GET, req_url = url @ ''/describe'', req_json = None\<rparr> = Inr resp' \<and>
    resp_json resp' = Some (PDict body') \<and> map_of body' ''description'' = Some (PList items) \<and>
    (\<exists>item\<in>set items. lacks_key item)"
  then obtain e where e: "html_rows py_repr html_header items = Inl e"
    using html_rows_lacking [of items py_repr html_header] by blast
  with a have r: "fst (get_description py_repr url w) = Inl e"
    by (simp add: get_description_body)
  from e have "e = TypeError \<or> (\<exists>k\<in>set description_keys. e = KeyError k)"
    by (rule html_rows_error_kind)
  with r show "\<exists>e. fst (get_description py_repr url w) = Inl e \<and>
           (e = TypeError \<or> (\<exists>k\<in>set description_keys. e = KeyError k))"
    by blast
  show "\<exists>k\<in>set description_keys. fst (get_description py_repr url w) = Inl (KeyError k)"
    if "\<forall>item\<in>set items. object_with_string_texts item"
    using html_rows_strings [OF that e] r by auto
qed

theorem get_description_table_failure_witness:
  "lacks_key (PDict [(''Code'', PStr ''SOS'')]) \<and>
   object_with_string_texts (PDict [(''Code'', PStr ''SOS'')]) \<and>
   fst (get_description example_repr ''http://host''
     (example_world \<lparr>status_code = 200,
        resp_json = Some (PDict [(''description'', PList [PDict [(''Code'', PStr ''SOS'')]])])\<rparr>))
   = Inl (KeyError ''Name'')"
proof -
  have "fst (get_description example_repr ''http://host''
     (example_world \<lparr>status_code = 200,
        resp_json = Some (PDict [(''description'', PList [PDict [(''Code'', PStr ''SOS'')]])])\<rparr>))
   = Inl (KeyError ''Name'')"
    by (simp add: get_description_unfold example_world_def answering_def response_json_def
        py_iter_def html_row_def add_str_def)
  then show ?thesis
    using get_description_table_failure
      [of example_repr "''http://host''"
        "example_world \<lparr>status_code = 200,
          resp_json = Some (PDict [(''description'', PList [PDict [(''Code'', PStr ''SOS'')]])])\<rparr>"
        PNone example_repr
        "\<lparr>status_code = 200,
          resp_json = Some (PDict [(''description'', PList [PDict [(''Code'', PStr ''SOS'')]])])\<rparr>"
        "[(''description'', PList [PDict [(''Code'', PStr ''SOS'')]])]"
        "[PDict [(''Code'', PStr ''SOS'')]]"]
    by (simp add: lacks_key_def object_with_string_texts_def description_keys_def is_str_def)
qed

text \<open>C10 as stated promises a key error for every item that lacks a key; an
  item whose Code is a number and that lacks the other keys fails with a TypeError.\<close>

theorem key_error_counterexample:
  "lacks_key (PDict [(''Code'', PInt 5)]) \<and>
   fst (get_description example_repr ''http://host''
     (example_world \<lparr>status_code = 200,
        resp_json = Some (PDict [(''description'', PList [PDict [(''Code'', PInt 5)]])])\<rparr>))
   = Inl TypeError \<and>
   (\<nexists>k. fst (get_description example_repr ''http://host''
     (example_world \<lparr>status_code = 200,
        resp_json = Some (PDict [(''description'', PList [PDict [(''Code'', PInt 5)]])])\<rparr>))
   = Inl (KeyError k))"
  by (simp add: get_description_unfold example_world_def answering_def response_json_def
      py_iter_def html_row_def add_str_def lacks_key_def description_keys_def)

end
